theory Spec2Isabelle
  imports Complex_Main "HOL-Library.Log_Nat"
begin

section \<open>Notification service (notification-service.tsx)\<close>

text \<open>
  The service keeps everything in a key-value store. The keys are built from a fixed
  prefix and an identifier (\<^verbatim>\<open>notifications:subscription:<userId>\<close>,
  \<^verbatim>\<open>notifications:queue:<type>\<close>, \<^verbatim>\<open>notifications:user:<userId>\<close>,
  \<^verbatim>\<open>notifications:system:stats\<close>, \<^verbatim>\<open>farm:users:<farmId>\<close>,
  \<^verbatim>\<open>crop:users:<crop>\<close>). Two keys of different families never coincide, so
  the store is a record with one map per family. \<^verbatim>\<open>kv.get\<close> of an absent key is
  \<open>None\<close>.

  The clock readings of a call (\<^verbatim>\<open>Date.now()\<close>, \<^verbatim>\<open>new Date().toISOString()\<close>,
  \<^verbatim>\<open>getHours()\<close>, \<^verbatim>\<open>getDay()\<close>) are inputs of the model, and so is the
  conversion of a number to a string inside a template literal.
\<close>

record clock =
  nowMs :: string
  nowIso :: string
  nowHours :: int
  nowDay :: int

record quiet_hours =
  qh_start :: string
  qh_end :: string

record preferences =
  frequency :: string
  quietHours :: quiet_hours
  language :: string
  timezone :: string

record subscription =
  sub_userId :: string
  sub_farmId :: "string option"
  notificationTypes :: "string list"
  sub_channels :: "string list"
  sub_preferences :: preferences
  isActive :: bool
  subscribedAt :: string
  lastUpdated :: string

text \<open>The argument of \<^verbatim>\<open>subscribe\<close>: every field but the user id may be missing.\<close>

record preferences_input =
  in_frequency :: "string option"
  in_quietHours :: "quiet_hours option"
  in_language :: "string option"
  in_timezone :: "string option"

record subscription_input =
  in_userId :: string
  in_farmId :: "string option"
  in_notificationTypes :: "string list option"
  in_channels :: "string list option"
  in_preferences :: "preferences_input option"

datatype payload =
    PriceData string real real real string
  | WeatherData string string string string
  | SensorAlertData string string real real string
  | CropRecData "string list" nat
  | WeatherSummary string
  | MarketSummary string
  | Activities "string list"
  | EmptyData

record notification =
  n_id :: string
  n_userId :: string
  n_farmId :: "string option"
  n_type :: string
  n_title :: string
  n_message :: string
  n_data :: payload
  n_priority :: string
  n_channels :: "string list option"
  n_timestamp :: string
  n_status :: string
  n_read :: bool
  n_readAt :: "string option"
  n_deliveredAt :: "string option"

record system_stats =
  totalSent :: nat
  byType :: "string \<rightharpoonup> nat"
  byDay :: "string \<rightharpoonup> nat"

record kv_store =
  kv_subscription :: "string \<rightharpoonup> subscription"
  kv_queue :: "string \<rightharpoonup> string list"
  kv_user :: "string \<rightharpoonup> notification list"
  kv_stats :: "system_stats option"
  kv_farm_users :: "string \<rightharpoonup> string list"
  kv_crop_users :: "string \<rightharpoonup> string list"

text \<open>\<^verbatim>\<open>x || d\<close> on an optional string: a missing and an empty string are both falsy.\<close>

definition str_or :: "string option \<Rightarrow> string \<Rightarrow> string" where
  "str_or x d = (case x of None \<Rightarrow> d | Some s \<Rightarrow> if s = [] then d else s)"

text \<open>\<^verbatim>\<open>x || d\<close> on an optional array or object: every array and object is truthy.\<close>

definition obj_or :: "'a option \<Rightarrow> 'a \<Rightarrow> 'a" where
  "obj_or x d = (case x of None \<Rightarrow> d | Some v \<Rightarrow> v)"

subsection \<open>subscribe\<close>

definition subscriptionData :: "clock \<Rightarrow> subscription_input \<Rightarrow> subscription" where
  "subscriptionData c s =
     \<lparr> sub_userId = in_userId s,
       sub_farmId = in_farmId s,
       notificationTypes =
         obj_or (in_notificationTypes s) [''price_alerts'', ''weather_warnings'', ''crop_recommendations''],
       sub_channels = obj_or (in_channels s) [''push''],
       sub_preferences =
         \<lparr> frequency = str_or (Option.bind (in_preferences s) in_frequency) ''immediate'',
           quietHours = obj_or (Option.bind (in_preferences s) in_quietHours)
                          \<lparr> qh_start = ''22:00'', qh_end = ''06:00'' \<rparr>,
           language = str_or (Option.bind (in_preferences s) in_language) ''en'',
           timezone = str_or (Option.bind (in_preferences s) in_timezone) ''Asia/Kolkata'' \<rparr>,
       isActive = True,
       subscribedAt = nowIso c,
       lastUpdated = nowIso c \<rparr>"

text \<open>The loop over the subscribed types: the user is appended to each type's queue it
  is not yet in.\<close>

fun addToQueues :: "string \<Rightarrow> string list \<Rightarrow> (string \<rightharpoonup> string list) \<Rightarrow> (string \<rightharpoonup> string list)" where
  "addToQueues userId [] q = q"
| "addToQueues userId (t # ts) q =
     (let subscribers = obj_or (q t) []
      in addToQueues userId ts
           (if userId \<in> set subscribers then q else q(t \<mapsto> subscribers @ [userId])))"

definition subscribe :: "clock \<Rightarrow> subscription_input \<Rightarrow> kv_store \<Rightarrow> kv_store" where
  "subscribe c s kv =
     (let sd = subscriptionData c s;
          kv1 = kv\<lparr> kv_subscription := (kv_subscription kv)(in_userId s \<mapsto> sd) \<rparr>
      in kv1\<lparr> kv_queue := addToQueues (in_userId s) (notificationTypes sd) (kv_queue kv1) \<rparr>)"

subsection \<open>storeAndDeliverNotification\<close>

record delivery =
  d_status :: string
  d_channel :: string
  d_timestamp :: string

text \<open>The result object of \<^verbatim>\<open>deliverToChannels\<close>: one property per channel that was
  served.\<close>

record delivery_results =
  r_push :: "delivery option"
  r_email :: "delivery option"
  r_sms :: "delivery option"

datatype error = TypeError

definition sent :: "clock \<Rightarrow> string \<Rightarrow> delivery" where
  "sent c ch = \<lparr> d_status = ''sent'', d_channel = ch, d_timestamp = nowIso c \<rparr>"

fun deliverLoop :: "clock \<Rightarrow> string list \<Rightarrow> delivery_results \<Rightarrow> delivery_results" where
  "deliverLoop c [] results = results"
| "deliverLoop c (channel # channels) results =
     deliverLoop c channels
       (if channel = ''push'' then results\<lparr> r_push := Some (sent c ''push'') \<rparr>
        else if channel = ''email'' then results\<lparr> r_email := Some (sent c ''email'') \<rparr>
        else if channel = ''sms'' then results\<lparr> r_sms := Some (sent c ''sms'') \<rparr>
        else results)"

text \<open>A notification without a \<^verbatim>\<open>channels\<close> property makes the \<^verbatim>\<open>for ... of\<close> loop
  throw a TypeError.\<close>

definition deliverToChannels :: "clock \<Rightarrow> notification \<Rightarrow> error + delivery_results" where
  "deliverToChannels c n =
     (case n_channels n of
        None \<Rightarrow> Inl TypeError
      | Some channels \<Rightarrow>
          Inr (deliverLoop c channels \<lparr> r_push = None, r_email = None, r_sms = None \<rparr>))"

definition today :: "clock \<Rightarrow> string" where
  "today c = takeWhile (\<lambda>ch. ch \<noteq> CHR ''T'') (nowIso c)"

definition count_or_zero :: "nat option \<Rightarrow> nat" where
  "count_or_zero x = (case x of None \<Rightarrow> 0 | Some k \<Rightarrow> k)"

definition updateSystemStats :: "clock \<Rightarrow> notification \<Rightarrow> kv_store \<Rightarrow> kv_store" where
  "updateSystemStats c n kv =
     (let stats = obj_or (kv_stats kv) \<lparr> totalSent = 0, byType = Map.empty, byDay = Map.empty \<rparr>;
          stats1 = stats\<lparr> totalSent := totalSent stats + 1 \<rparr>;
          stats2 = stats1\<lparr> byType := (byType stats1)(n_type n \<mapsto> count_or_zero (byType stats1 (n_type n)) + 1) \<rparr>;
          stats3 = stats2\<lparr> byDay := (byDay stats2)(today c \<mapsto> count_or_zero (byDay stats2 (today c)) + 1) \<rparr>
      in kv\<lparr> kv_stats := Some stats3 \<rparr>)"

record store_result =
  stored :: bool
  delivered :: delivery_results
  notificationId :: string

text \<open>\<^verbatim>\<open>unshift\<close> puts the notification in front, \<^verbatim>\<open>splice(100)\<close> removes every
  element from index 100 on. The list is written back before the delivery, so it is stored
  also when the delivery throws.\<close>

definition storeAndDeliverNotification ::
  "clock \<Rightarrow> string \<Rightarrow> notification \<Rightarrow> kv_store \<Rightarrow> kv_store \<times> (error + store_result)" where
  "storeAndDeliverNotification c userId n kv =
     (let userNotifications = n # obj_or (kv_user kv userId) [];
          userNotifications1 =
            (if length userNotifications > 100 then take 100 userNotifications
             else userNotifications);
          kv1 = kv\<lparr> kv_user := (kv_user kv)(userId \<mapsto> userNotifications1) \<rparr>
      in case deliverToChannels c n of
           Inl e \<Rightarrow> (kv1, Inl e)
         | Inr deliveryResults \<Rightarrow>
             (updateSystemStats c n kv1,
              Inr \<lparr> stored = True, delivered = deliveryResults, notificationId = n_id n \<rparr>))"

text \<open>Storing a sequence of notifications for one user, one call after the other.\<close>

fun storeMany :: "string \<Rightarrow> (clock \<times> notification) list \<Rightarrow> kv_store \<Rightarrow> kv_store" where
  "storeMany userId [] kv = kv"
| "storeMany userId ((c, n) # ps) kv =
     storeMany userId ps (fst (storeAndDeliverNotification c userId n kv))"

subsection \<open>markAsRead\<close>

text \<open>\<^verbatim>\<open>find\<close> returns the first element with the given id; the assignments to it change
  the array in place, at that element.\<close>

fun updateFirst :: "('a \<Rightarrow> bool) \<Rightarrow> ('a \<Rightarrow> 'a) \<Rightarrow> 'a list \<Rightarrow> 'a list" where
  "updateFirst P f [] = []"
| "updateFirst P f (x # xs) = (if P x then f x # xs else x # updateFirst P f xs)"

record mark_result =
  m_status :: string
  m_notificationId :: "string option"

definition markAsRead :: "clock \<Rightarrow> string \<Rightarrow> string \<Rightarrow> kv_store \<Rightarrow> kv_store \<times> mark_result" where
  "markAsRead c userId nid kv =
     (let notifications = obj_or (kv_user kv userId) []
      in case find (\<lambda>n. n_id n = nid) notifications of
           Some notification \<Rightarrow>
             (kv\<lparr> kv_user := (kv_user kv)(userId \<mapsto>
                    updateFirst (\<lambda>n. n_id n = nid)
                      (\<lambda>n. n\<lparr> n_read := True, n_readAt := Some (nowIso c) \<rparr>) notifications) \<rparr>,
              \<lparr> m_status = ''marked_as_read'', m_notificationId = Some nid \<rparr>)
         | None \<Rightarrow> (kv, \<lparr> m_status = ''notification_not_found'', m_notificationId = None \<rparr>))"

subsection \<open>shouldSendScheduledNotification\<close>

text \<open>\<^verbatim>\<open>s.split(':')[0]\<close>: the part of the string before its first colon.\<close>

definition splitHead :: "string \<Rightarrow> string" where
  "splitHead s = takeWhile (\<lambda>ch. ch \<noteq> CHR '':'') s"

text \<open>
  \<^verbatim>\<open>parseInt\<close> is a parameter of the model: a function from strings to integers, with
  \<open>None\<close> for NaN. Every comparison with NaN is false.
\<close>

definition ge_num :: "int \<Rightarrow> int option \<Rightarrow> bool" where
  "ge_num x y = (case y of None \<Rightarrow> False | Some v \<Rightarrow> x \<ge> v)"

definition le_num :: "int \<Rightarrow> int option \<Rightarrow> bool" where
  "le_num x y = (case y of None \<Rightarrow> False | Some v \<Rightarrow> x \<le> v)"

definition shouldSendScheduledNotification ::
  "(string \<Rightarrow> int option) \<Rightarrow> clock \<Rightarrow> subscription \<Rightarrow> string \<Rightarrow> bool" where
  "shouldSendScheduledNotification parseInt c sub type =
     (let currentHour = nowHours c;
          quietStart = parseInt (splitHead (qh_start (quietHours (sub_preferences sub))));
          quietEnd = parseInt (splitHead (qh_end (quietHours (sub_preferences sub))))
      in if ge_num currentHour quietStart \<or> le_num currentHour quietEnd then False
         else if frequency (sub_preferences sub) = ''never'' then False
         else if frequency (sub_preferences sub) = ''weekly'' \<and> nowDay c \<noteq> 1 then False
         else True)"

text \<open>A \<^verbatim>\<open>parseInt\<close> for the examples: an optional sign and the leading decimal digits,
  NaN when there is none.\<close>

definition digitVal :: "char \<Rightarrow> int" where
  "digitVal ch = int (of_char ch) - 48"

definition isDigit :: "char \<Rightarrow> bool" where
  "isDigit ch = (48 \<le> (of_char ch :: nat) \<and> (of_char ch :: nat) \<le> 57)"

definition parseDigits :: "string \<Rightarrow> int option" where
  "parseDigits s =
     (let ds = takeWhile isDigit s
      in if ds = [] then None else Some (foldl (\<lambda>acc ch. 10 * acc + digitVal ch) 0 ds))"

definition parseIntDec :: "string \<Rightarrow> int option" where
  "parseIntDec s =
     (case s of
        [] \<Rightarrow> None
      | ch # rest \<Rightarrow>
          if ch = CHR ''-'' then map_option uminus (parseDigits rest)
          else if ch = CHR ''+'' then parseDigits rest
          else parseDigits s)"

text \<open>
  The quiet-hours window as the specification words it: the hours from \<open>quietStart\<close>
  up to but not including \<open>quietEnd\<close>, wrapping over midnight when the window starts
  later than it ends. This definition follows the specification, not the source.
\<close>

definition spec_inQuietWindow :: "int \<Rightarrow> int \<Rightarrow> int \<Rightarrow> bool" where
  "spec_inQuietWindow h quietStart quietEnd =
     (if quietStart \<le> quietEnd then quietStart \<le> h \<and> h < quietEnd
      else quietStart \<le> h \<or> h < quietEnd)"

definition spec_suppressed :: "int \<Rightarrow> int \<Rightarrow> int \<Rightarrow> string \<Rightarrow> int \<Rightarrow> bool" where
  "spec_suppressed h quietStart quietEnd freq day =
     (spec_inQuietWindow h quietStart quietEnd \<or> freq = ''never'' \<or> (freq = ''weekly'' \<and> day \<noteq> 1))"

subsection \<open>Alert builders\<close>

definition subscribedTo :: "kv_store \<Rightarrow> string \<Rightarrow> string \<Rightarrow> bool" where
  "subscribedTo kv notificationType userId =
     (case kv_subscription kv userId of
        None \<Rightarrow> False
      | Some sub \<Rightarrow> isActive sub \<and> notificationType \<in> set (notificationTypes sub))"

definition getUsersForFarm :: "kv_store \<Rightarrow> string \<Rightarrow> string \<Rightarrow> string list" where
  "getUsersForFarm kv farmId notificationType =
     filter (subscribedTo kv notificationType) (obj_or (kv_farm_users kv farmId) [])"

definition getUsersForCrop :: "kv_store \<Rightarrow> string \<Rightarrow> string \<Rightarrow> string list" where
  "getUsersForCrop kv crop notificationType =
     filter (subscribedTo kv notificationType) (obj_or (kv_crop_users kv crop) [])"

record price_data =
  pd_currentPrice :: real
  pd_previousPrice :: real
  pd_changePercent :: real
  pd_trend :: string

text \<open>\<open>sh\<close> is the conversion of a number to a string in a template literal.\<close>

definition priceNotification ::
  "(real \<Rightarrow> string) \<Rightarrow> clock \<Rightarrow> string \<Rightarrow> price_data \<Rightarrow> string \<Rightarrow> subscription \<Rightarrow> notification" where
  "priceNotification sh c crop pd userId sub =
     \<lparr> n_id = ''price_'' @ nowMs c @ ''_'' @ userId,
       n_userId = userId,
       n_farmId = None,
       n_type = ''price_alerts'',
       n_title = ''Price Alert: '' @ crop,
       n_message = crop @ '' price '' @
         (if pd_changePercent pd > 0 then ''increased'' else ''decreased'') @ '' by '' @
         sh \<bar>pd_changePercent pd\<bar> @ ''% to '' @ sh (pd_currentPrice pd),
       n_data = PriceData crop (pd_currentPrice pd) (pd_previousPrice pd) (pd_changePercent pd) (pd_trend pd),
       n_priority = (if \<bar>pd_changePercent pd\<bar> > 10 then ''high'' else ''normal''),
       n_channels = Some (sub_channels sub),
       n_timestamp = nowIso c,
       n_status = ''pending'',
       n_read = False,
       n_readAt = None,
       n_deliveredAt = None \<rparr>"

text \<open>
  The loop of \<^verbatim>\<open>sendPriceAlert\<close> over the interested users. The stored preferences have
  no \<^verbatim>\<open>priceChangeThreshold\<close> (\<^verbatim>\<open>subscribe\<close> writes four fields), so the threshold
  is the default 5. Reading \<^verbatim>\<open>subscription.channels\<close> of an absent subscription throws.
\<close>

fun priceAlertLoop ::
  "(real \<Rightarrow> string) \<Rightarrow> clock \<Rightarrow> string \<Rightarrow> price_data \<Rightarrow> string list \<Rightarrow> kv_store \<Rightarrow>
   (string \<times> store_result) list \<Rightarrow> kv_store \<times> (error + (string \<times> store_result) list)" where
  "priceAlertLoop sh c crop pd [] kv results = (kv, Inr results)"
| "priceAlertLoop sh c crop pd (userId # users) kv results =
     (let subscription = kv_subscription kv userId;
          threshold = 5
      in if \<bar>pd_changePercent pd\<bar> \<ge> threshold then
           (case subscription of
              None \<Rightarrow> (kv, Inl TypeError)
            | Some sub \<Rightarrow>
                (case storeAndDeliverNotification c userId (priceNotification sh c crop pd userId sub) kv of
                   (kv1, Inl e) \<Rightarrow> (kv1, Inl e)
                 | (kv1, Inr result) \<Rightarrow>
                     priceAlertLoop sh c crop pd users kv1 (results @ [(userId, result)])))
         else priceAlertLoop sh c crop pd users kv results)"

record alert_summary =
  s_subject :: string
  s_usersNotified :: nat
  s_results :: "(string \<times> store_result) list"

definition sendPriceAlert ::
  "(real \<Rightarrow> string) \<Rightarrow> clock \<Rightarrow> string \<Rightarrow> price_data \<Rightarrow> kv_store \<Rightarrow> kv_store \<times> (error + alert_summary)" where
  "sendPriceAlert sh c crop pd kv =
     (let interestedUsers = getUsersForCrop kv crop ''price_alerts''
      in case priceAlertLoop sh c crop pd interestedUsers kv [] of
           (kv1, Inl e) \<Rightarrow> (kv1, Inl e)
         | (kv1, Inr results) \<Rightarrow>
             (kv1, Inr \<lparr> s_subject = crop, s_usersNotified = length results, s_results = results \<rparr>))"

record weather_alert =
  wa_type :: string
  wa_message :: string
  wa_severity :: string
  wa_actionRequired :: string
  wa_validUntil :: string

definition weatherNotification :: "clock \<Rightarrow> string \<Rightarrow> weather_alert \<Rightarrow> string \<Rightarrow> notification" where
  "weatherNotification c farmId wa userId =
     \<lparr> n_id = ''weather_'' @ nowMs c @ ''_'' @ userId,
       n_userId = userId,
       n_farmId = Some farmId,
       n_type = ''weather_warnings'',
       n_title = ''Weather Alert: '' @ wa_type wa,
       n_message = wa_message wa,
       n_data = WeatherData (wa_type wa) (wa_severity wa) (wa_actionRequired wa) (wa_validUntil wa),
       n_priority = (if wa_severity wa = ''severe'' then ''high'' else ''normal''),
       n_channels = Some [''push'', ''sms''],
       n_timestamp = nowIso c,
       n_status = ''pending'',
       n_read = False,
       n_readAt = None,
       n_deliveredAt = None \<rparr>"

fun weatherAlertLoop ::
  "clock \<Rightarrow> string \<Rightarrow> weather_alert \<Rightarrow> string list \<Rightarrow> kv_store \<Rightarrow>
   (string \<times> store_result) list \<Rightarrow> kv_store \<times> (error + (string \<times> store_result) list)" where
  "weatherAlertLoop c farmId wa [] kv results = (kv, Inr results)"
| "weatherAlertLoop c farmId wa (userId # users) kv results =
     (case storeAndDeliverNotification c userId (weatherNotification c farmId wa userId) kv of
        (kv1, Inl e) \<Rightarrow> (kv1, Inl e)
      | (kv1, Inr result) \<Rightarrow> weatherAlertLoop c farmId wa users kv1 (results @ [(userId, result)]))"

definition sendWeatherAlert ::
  "clock \<Rightarrow> string \<Rightarrow> weather_alert \<Rightarrow> kv_store \<Rightarrow> kv_store \<times> (error + alert_summary)" where
  "sendWeatherAlert c farmId wa kv =
     (let subscribedUsers = getUsersForFarm kv farmId ''weather_warnings''
      in case weatherAlertLoop c farmId wa subscribedUsers kv [] of
           (kv1, Inl e) \<Rightarrow> (kv1, Inl e)
         | (kv1, Inr results) \<Rightarrow>
             (kv1, Inr \<lparr> s_subject = farmId, s_usersNotified = length results, s_results = results \<rparr>))"

definition cropRecNotification ::
  "(real \<Rightarrow> string) \<Rightarrow> clock \<Rightarrow> string \<Rightarrow> string list \<Rightarrow> subscription \<Rightarrow> notification" where
  "cropRecNotification sh c userId recommendations sub =
     \<lparr> n_id = ''crop_rec_'' @ nowMs c,
       n_userId = userId,
       n_farmId = None,
       n_type = ''crop_recommendations'',
       n_title = ''New Crop Recommendations Available'',
       n_message = ''We have '' @ sh (real (length recommendations)) @
         '' new crop recommendations based on your farm data'',
       n_data = CropRecData (take 3 recommendations) (length recommendations),
       n_priority = ''normal'',
       n_channels = Some (sub_channels sub),
       n_timestamp = nowIso c,
       n_status = ''pending'',
       n_read = False,
       n_readAt = None,
       n_deliveredAt = None \<rparr>"

datatype crop_rec_result = NotSubscribed | Sent string

text \<open>The result of \<^verbatim>\<open>storeAndDeliverNotification\<close> is awaited and dropped; an
  exception would propagate, but the notification built here always has channels.\<close>

definition sendCropRecommendations ::
  "(real \<Rightarrow> string) \<Rightarrow> clock \<Rightarrow> string \<Rightarrow> string list \<Rightarrow> kv_store \<Rightarrow>
   kv_store \<times> (error + crop_rec_result)" where
  "sendCropRecommendations sh c userId recommendations kv =
     (case kv_subscription kv userId of
        None \<Rightarrow> (kv, Inr NotSubscribed)
      | Some sub \<Rightarrow>
          if \<not> isActive sub \<or> ''crop_recommendations'' \<notin> set (notificationTypes sub)
          then (kv, Inr NotSubscribed)
          else (case storeAndDeliverNotification c userId
                       (cropRecNotification sh c userId recommendations sub) kv of
                  (kv1, Inl e) \<Rightarrow> (kv1, Inl e)
                | (kv1, Inr result) \<Rightarrow>
                    (kv1, Inr (Sent (n_id (cropRecNotification sh c userId recommendations sub))))))"

text \<open>\<^verbatim>\<open>generateScheduledContent\<close>; it is called with the three scheduled types only.\<close>

definition generateScheduledContent :: "string \<Rightarrow> string \<times> string \<times> payload" where
  "generateScheduledContent type =
     (if type = ''weather_updates'' then
        (''Daily Weather Update'', ''Check today's weather forecast and agricultural advice'',
         WeatherSummary ''Partly cloudy, good for field work'')
      else if type = ''market_updates'' then
        (''Market Price Update'', ''Latest crop prices and market trends available'',
         MarketSummary ''Tomato prices trending upward'')
      else if type = ''crop_reminders'' then
        (''Crop Care Reminder'', ''Time for scheduled farm activities'',
         Activities [''Irrigation check'', ''Pest monitoring''])
      else (''Farm Update'', ''New update available'', EmptyData))"

definition scheduledNotification ::
  "clock \<Rightarrow> string \<Rightarrow> string \<times> string \<times> payload \<Rightarrow> string \<Rightarrow> subscription \<Rightarrow> notification" where
  "scheduledNotification c type content userId sub =
     \<lparr> n_id = ''scheduled_'' @ type @ ''_'' @ nowMs c @ ''_'' @ userId,
       n_userId = userId,
       n_farmId = None,
       n_type = type,
       n_title = fst content,
       n_message = fst (snd content),
       n_data = snd (snd content),
       n_priority = ''normal'',
       n_channels = Some (sub_channels sub),
       n_timestamp = nowIso c,
       n_status = ''pending'',
       n_read = False,
       n_readAt = None,
       n_deliveredAt = None \<rparr>"

fun scheduledLoop ::
  "(string \<Rightarrow> int option) \<Rightarrow> clock \<Rightarrow> string \<Rightarrow> string \<times> string \<times> payload \<Rightarrow> string list \<Rightarrow>
   kv_store \<Rightarrow> (string \<times> store_result) list \<Rightarrow>
   kv_store \<times> (error + (string \<times> store_result) list)" where
  "scheduledLoop parseInt c type content [] kv results = (kv, Inr results)"
| "scheduledLoop parseInt c type content (userId # users) kv results =
     (case kv_subscription kv userId of
        None \<Rightarrow> scheduledLoop parseInt c type content users kv results
      | Some sub \<Rightarrow>
          if isActive sub \<and> shouldSendScheduledNotification parseInt c sub type then
            (case storeAndDeliverNotification c userId
                    (scheduledNotification c type content userId sub) kv of
               (kv1, Inl e) \<Rightarrow> (kv1, Inl e)
             | (kv1, Inr result) \<Rightarrow>
                 scheduledLoop parseInt c type content users kv1 (results @ [(userId, result)]))
          else scheduledLoop parseInt c type content users kv results)"

definition processScheduledNotificationType ::
  "(string \<Rightarrow> int option) \<Rightarrow> clock \<Rightarrow> string \<Rightarrow> kv_store \<Rightarrow> kv_store \<times> (error + alert_summary)" where
  "processScheduledNotificationType parseInt c type kv =
     (let content = generateScheduledContent type;
          subscribers = obj_or (kv_queue kv type) []
      in case scheduledLoop parseInt c type content subscribers kv [] of
           (kv1, Inl e) \<Rightarrow> (kv1, Inl e)
         | (kv1, Inr results) \<Rightarrow>
             (kv1, Inr \<lparr> s_subject = type, s_usersNotified = length results, s_results = results \<rparr>))"

subsection \<open>Sample data\<close>

definition emptyStore :: kv_store where
  "emptyStore = \<lparr> kv_subscription = Map.empty, kv_queue = Map.empty, kv_user = Map.empty,
     kv_stats = None, kv_farm_users = Map.empty, kv_crop_users = Map.empty \<rparr>"

definition sampleClock :: clock where
  "sampleClock = \<lparr> nowMs = ''1700000000000'', nowIso = ''2023-11-14T22:13:20.000Z'',
     nowHours = 22, nowDay = 2 \<rparr>"

definition sampleNotification :: "string \<Rightarrow> notification" where
  "sampleNotification i =
     \<lparr> n_id = i, n_userId = ''u1'', n_farmId = None, n_type = ''sensor_alerts'',
       n_title = ''Sensor Alert: soil_moisture'', n_message = ''low'', n_data = EmptyData,
       n_priority = ''normal'', n_channels = Some [''push''],
       n_timestamp = ''2023-11-14T22:13:20.000Z'',
       n_status = ''pending'', n_read = False, n_readAt = None, n_deliveredAt = None \<rparr>"

section \<open>JavaScript numbers\<close>

text \<open>
  Sensor values, prices, temperatures and humidities are JavaScript numbers: IEEE 754
  double-precision numbers. A finite double is taken as the real number it denotes, and a
  result that can leave the finite numbers is a \<open>jsnum\<close>: a real number, an infinity or
  NaN. Zero is the positive zero. The operations \<open>js_add\<close>, \<open>js_sub\<close>, \<open>js_mul\<close> and
  \<open>js_div\<close> are exact; the price statistics of the market service are stated with them.
  The weather indices and the farm health score are computed with the rounded operations
  \<open>d_add\<close>, \<open>d_sub\<close>, \<open>d_mul\<close> and \<open>d_div\<close> of the subsection on double precision
  below.
\<close>

datatype jsnum = Num real | PosInf | NegInf | NaN

fun js_neg :: "jsnum \<Rightarrow> jsnum" where
  "js_neg (Num a) = Num (- a)"
| "js_neg PosInf = NegInf"
| "js_neg NegInf = PosInf"
| "js_neg NaN = NaN"

fun js_add :: "jsnum \<Rightarrow> jsnum \<Rightarrow> jsnum" where
  "js_add (Num a) (Num b) = Num (a + b)"
| "js_add NaN y = NaN"
| "js_add x NaN = NaN"
| "js_add PosInf NegInf = NaN"
| "js_add NegInf PosInf = NaN"
| "js_add PosInf y = PosInf"
| "js_add NegInf y = NegInf"
| "js_add (Num a) y = y"

definition js_sub :: "jsnum \<Rightarrow> jsnum \<Rightarrow> jsnum" where
  "js_sub x y = js_add x (js_neg y)"

text \<open>The sign of an infinite product or quotient: an infinity times or over a finite
  number keeps its sign for a positive number and flips it for a negative one.\<close>

fun js_mul :: "jsnum \<Rightarrow> jsnum \<Rightarrow> jsnum" where
  "js_mul (Num a) (Num b) = Num (a * b)"
| "js_mul NaN y = NaN"
| "js_mul x NaN = NaN"
| "js_mul PosInf (Num b) = (if b = 0 then NaN else if b > 0 then PosInf else NegInf)"
| "js_mul NegInf (Num b) = (if b = 0 then NaN else if b > 0 then NegInf else PosInf)"
| "js_mul (Num a) PosInf = (if a = 0 then NaN else if a > 0 then PosInf else NegInf)"
| "js_mul (Num a) NegInf = (if a = 0 then NaN else if a > 0 then NegInf else PosInf)"
| "js_mul PosInf PosInf = PosInf"
| "js_mul NegInf NegInf = PosInf"
| "js_mul PosInf NegInf = NegInf"
| "js_mul NegInf PosInf = NegInf"

fun js_div :: "jsnum \<Rightarrow> jsnum \<Rightarrow> jsnum" where
  "js_div (Num a) (Num b) =
     (if b \<noteq> 0 then Num (a / b)
      else if a > 0 then PosInf else if a < 0 then NegInf else NaN)"
| "js_div NaN y = NaN"
| "js_div x NaN = NaN"
| "js_div (Num a) y = Num 0"
| "js_div PosInf (Num b) = (if b \<ge> 0 then PosInf else NegInf)"
| "js_div NegInf (Num b) = (if b \<ge> 0 then NegInf else PosInf)"
| "js_div x y = NaN"



fun js_le :: "jsnum \<Rightarrow> jsnum \<Rightarrow> bool" where
  "js_le (Num a) (Num b) = (a \<le> b)"
| "js_le NaN y = False"
| "js_le x NaN = False"
| "js_le NegInf y = True"
| "js_le x PosInf = True"
| "js_le x y = False"

text \<open>\<^verbatim>\<open>Math.round\<close>: the nearest integer, a tie going up.\<close>

definition js_round :: "real \<Rightarrow> real" where
  "js_round x = of_int \<lfloor>x + 1 / 2\<rfloor>"

fun js_round_num :: "jsnum \<Rightarrow> jsnum" where
  "js_round_num (Num x) = Num (js_round x)"
| "js_round_num y = y"

text \<open>\<^verbatim>\<open>Math.abs\<close>, \<^verbatim>\<open>Math.min\<close> and \<^verbatim>\<open>Math.max\<close> of two numbers.\<close>

fun js_abs :: "jsnum \<Rightarrow> jsnum" where
  "js_abs (Num a) = Num \<bar>a\<bar>"
| "js_abs PosInf = PosInf"
| "js_abs NegInf = PosInf"
| "js_abs NaN = NaN"

fun js_min :: "jsnum \<Rightarrow> jsnum \<Rightarrow> jsnum" where
  "js_min (Num a) (Num b) = Num (min a b)"
| "js_min NaN y = NaN"
| "js_min x NaN = NaN"
| "js_min NegInf y = NegInf"
| "js_min x NegInf = NegInf"
| "js_min PosInf y = y"
| "js_min x PosInf = x"

fun js_max :: "jsnum \<Rightarrow> jsnum \<Rightarrow> jsnum" where
  "js_max (Num a) (Num b) = Num (max a b)"
| "js_max NaN y = NaN"
| "js_max x NaN = NaN"
| "js_max PosInf y = PosInf"
| "js_max x PosInf = PosInf"
| "js_max NegInf y = y"
| "js_max x NegInf = x"

subsection \<open>Double precision\<close>

text \<open>
  The doubles are the numbers \<open>m * 2 powi (e - 52)\<close> with an integer \<open>m\<close> of magnitude
  below \<open>2 ^ 53\<close> and an exponent \<open>e\<close> from \<open>-1022\<close> to \<open>1023\<close>. \<open>ilog2 a\<close> is the
  exponent of the power of two at or below a positive \<open>a\<close>; \<open>expo x\<close> is the exponent of
  the binade of \<open>x\<close>, which is \<open>-1022\<close> for the subnormal numbers and zero; \<open>ulp x\<close> is
  the spacing of the doubles there. \<open>rne\<close> rounds to the nearest integer, a tie to the
  even one, and \<open>fl\<close> rounds a real number to the nearest double in the same way.
\<close>

definition ilog2 :: "real \<Rightarrow> int" where
  "ilog2 a =
     (if 1 \<le> a then bitlen \<lfloor>a\<rfloor> - 1
      else (let k = bitlen \<lfloor>1 / a\<rfloor> - 1
            in if a * 2 powi k = 1 then - k else - k - 1))"

definition expo :: "real \<Rightarrow> int" where
  "expo x = (if x = 0 then - 1022 else max (- 1022) (ilog2 \<bar>x\<bar>))"

definition ulp :: "real \<Rightarrow> real" where
  "ulp x = 2 powi (expo x - 52)"

definition rne :: "real \<Rightarrow> int" where
  "rne y =
     (if y - of_int \<lfloor>y\<rfloor> < 1 / 2 then \<lfloor>y\<rfloor>
      else if 1 / 2 < y - of_int \<lfloor>y\<rfloor> then \<lfloor>y\<rfloor> + 1
      else if even \<lfloor>y\<rfloor> then \<lfloor>y\<rfloor> else \<lfloor>y\<rfloor> + 1)"

definition fl :: "real \<Rightarrow> real" where
  "fl x = of_int (rne (x / ulp x)) * ulp x"

text \<open>The result of an arithmetic operation is the rounded exact result, and an infinity
  when the rounded magnitude reaches \<open>2 ^ 1024\<close>. A numeric literal of the source is the
  double nearest to its decimal value.\<close>

definition js_rnd :: "real \<Rightarrow> jsnum" where
  "js_rnd x =
     (if 2 ^ 1024 \<le> \<bar>fl x\<bar> then (if 0 < x then PosInf else NegInf) else Num (fl x))"

fun js_rnd_num :: "jsnum \<Rightarrow> jsnum" where
  "js_rnd_num (Num x) = js_rnd x"
| "js_rnd_num y = y"

definition d_add :: "jsnum \<Rightarrow> jsnum \<Rightarrow> jsnum" where
  "d_add x y = js_rnd_num (js_add x y)"

definition d_sub :: "jsnum \<Rightarrow> jsnum \<Rightarrow> jsnum" where
  "d_sub x y = js_rnd_num (js_sub x y)"

definition d_mul :: "jsnum \<Rightarrow> jsnum \<Rightarrow> jsnum" where
  "d_mul x y = js_rnd_num (js_mul x y)"

definition d_div :: "jsnum \<Rightarrow> jsnum \<Rightarrow> jsnum" where
  "d_div x y = js_rnd_num (js_div x y)"

definition lit :: "real \<Rightarrow> jsnum" where
  "lit x = js_rnd x"



section \<open>Weather service: dew point and heat index\<close>


definition calculateHeatIndex :: "real \<Rightarrow> real \<Rightarrow> jsnum" where
  "calculateHeatIndex temp humidity =
     (if temp < 27 then Num temp
      else
        let c1 = js_neg (lit 8.78469475556);
            c2 = lit 1.61139411;
            c3 = lit 2.33854883889;
            c4 = js_neg (lit 0.14611605);
            c5 = js_neg (lit 0.012308094);
            c6 = js_neg (lit 0.0164248277778);
            c7 = lit 0.002211732;
            c8 = lit 0.00072546;
            c9 = js_neg (lit 0.000003582);
            t = Num temp;
            h = Num humidity;
            hi = d_add (d_add (d_add (d_add (d_add (d_add (d_add (d_add c1
                   (d_mul c2 t))
                   (d_mul c3 h))
                   (d_mul (d_mul c4 t) h))
                   (d_mul (d_mul c5 t) t))
                   (d_mul (d_mul c6 h) h))
                   (d_mul (d_mul (d_mul c7 t) t) h))
                   (d_mul (d_mul (d_mul c8 t) h) h))
                   (d_mul (d_mul (d_mul (d_mul c9 t) t) h) h)
        in js_round_num hi)"

text \<open>The two formulas as the specification words them, over the real numbers: the
  Rothfusz regression polynomial, and the Magnus formula for a given logarithm \<open>l\<close> of
  the relative humidity.\<close>

definition spec_rothfusz :: "real \<Rightarrow> real \<Rightarrow> real" where
  "spec_rothfusz temp humidity =
     - 8.78469475556 + 1.61139411 * temp + 2.33854883889 * humidity
       - 0.14611605 * temp * humidity - 0.012308094 * temp * temp
       - 0.0164248277778 * humidity * humidity + 0.002211732 * temp * temp * humidity
       + 0.00072546 * temp * humidity * humidity
       - 0.000003582 * temp * temp * humidity * humidity"


subsection \<open>Expressions of sums and products\<close>

text \<open>An expression built from literals, arguments with a bound on their magnitude,
  negation, products and sums, with its double-precision value \<open>evalD\<close> and its exact
  value \<open>evalR\<close>. \<open>heatPoly\<close> is the polynomial of \<^verbatim>\<open>calculateHeatIndex\<close> as such an
  expression, for a temperature of magnitude at most 1000 and a humidity of magnitude
  at most 100.\<close>

datatype pexp = Lit real | Var real real | Neg pexp | Mul pexp pexp | Add pexp pexp

fun evalD :: "pexp \<Rightarrow> jsnum" where
  "evalD (Lit c) = lit c"
| "evalD (Var x B) = Num x"
| "evalD (Neg e) = js_neg (evalD e)"
| "evalD (Mul a b) = d_mul (evalD a) (evalD b)"
| "evalD (Add a b) = d_add (evalD a) (evalD b)"

fun evalR :: "pexp \<Rightarrow> real" where
  "evalR (Lit c) = c"
| "evalR (Var x B) = x"
| "evalR (Neg e) = - evalR e"
| "evalR (Mul a b) = evalR a * evalR b"
| "evalR (Add a b) = evalR a + evalR b"

text \<open>Bounds for the double-precision value of an expression: a bound on the magnitude
  of the exact value and a bound on the distance between the two values; \<open>None\<close> when
  an argument or an intermediate result leaves the range the bounds are meant for.\<close>

fun bnd :: "pexp \<Rightarrow> (real \<times> real) option" where
  "bnd (Lit c) = (if \<bar>c\<bar> \<le> 1000 then Some (\<bar>c\<bar>, (\<bar>c\<bar> + 1) / 2 ^ 52) else None)"
| "bnd (Var x B) = (if \<bar>x\<bar> \<le> B then Some (B, 0) else None)"
| "bnd (Neg e) = bnd e"
| "bnd (Mul a b) =
     (case bnd a of
        None \<Rightarrow> None
      | Some (ma, ea) \<Rightarrow>
          (case bnd b of
             None \<Rightarrow> None
           | Some (mb, eb) \<Rightarrow>
               if (ma + ea) * (mb + eb) + 1 \<le> 2 ^ 1000
               then Some (ma * mb, (ma + ea) * eb + mb * ea + ((ma + ea) * (mb + eb) + 1) / 2 ^ 52)
               else None))"
| "bnd (Add a b) =
     (case bnd a of
        None \<Rightarrow> None
      | Some (ma, ea) \<Rightarrow>
          (case bnd b of
             None \<Rightarrow> None
           | Some (mb, eb) \<Rightarrow>
               if ma + ea + mb + eb + 1 \<le> 2 ^ 1000
               then Some (ma + mb, ea + eb + (ma + ea + mb + eb + 1) / 2 ^ 52)
               else None))"

definition heatPoly :: "real \<Rightarrow> real \<Rightarrow> pexp" where
  "heatPoly temp humidity =
     (let c1 = Neg (Lit 8.78469475556);
          c2 = Lit 1.61139411;
          c3 = Lit 2.33854883889;
          c4 = Neg (Lit 0.14611605);
          c5 = Neg (Lit 0.012308094);
          c6 = Neg (Lit 0.0164248277778);
          c7 = Lit 0.002211732;
          c8 = Lit 0.00072546;
          c9 = Neg (Lit 0.000003582);
          t = Var temp 1000;
          h = Var humidity 100
      in Add (Add (Add (Add (Add (Add (Add (Add c1
           (Mul c2 t))
           (Mul c3 h))
           (Mul (Mul c4 t) h))
           (Mul (Mul c5 t) t))
           (Mul (Mul c6 h) h))
           (Mul (Mul (Mul c7 t) t) h))
           (Mul (Mul (Mul c8 t) h) h))
           (Mul (Mul (Mul (Mul c9 t) t) h) h))"

section \<open>Market service: analyzePriceTrends\<close>









section \<open>IoT service (iot-service.ts)\<close>

record readings =
  rd_value :: real
  rd_unit :: string
  rd_quality :: "string option"
  rd_batteryLevel :: "real option"

record sensor_input =
  si_farmId :: string
  si_sensorId :: string
  si_sensorType :: string
  si_location :: string
  si_timestamp :: string
  si_readings :: readings

record sensor_data =
  sd_farmId :: string
  sd_sensorId :: string
  sd_sensorType :: string
  sd_location :: string
  sd_timestamp :: string
  sd_value :: real
  sd_unit :: string
  sd_quality :: string
  sd_batteryLevel :: "real option"
  sd_processed :: string

text \<open>\<^verbatim>\<open>x || null\<close> on an optional number: a missing number and zero are both falsy.\<close>

definition num_or_null :: "real option \<Rightarrow> real option" where
  "num_or_null x = (case x of None \<Rightarrow> None | Some v \<Rightarrow> if v = 0 then None else Some v)"

definition normalizeSensorData :: "clock \<Rightarrow> sensor_input \<Rightarrow> sensor_data" where
  "normalizeSensorData c sensorData =
     \<lparr> sd_farmId = si_farmId sensorData,
       sd_sensorId = si_sensorId sensorData,
       sd_sensorType = si_sensorType sensorData,
       sd_location = si_location sensorData,
       sd_timestamp = si_timestamp sensorData,
       sd_value = rd_value (si_readings sensorData),
       sd_unit = rd_unit (si_readings sensorData),
       sd_quality = str_or (rd_quality (si_readings sensorData)) ''unknown'',
       sd_batteryLevel = num_or_null (rd_batteryLevel (si_readings sensorData)),
       sd_processed = nowIso c \<rparr>"

record threshold =
  critical_low :: real
  warning_low :: real
  warning_high :: real
  critical_high :: real

text \<open>
  A property read \<^verbatim>\<open>table[key]\<close> on an object literal finds the literal's own entries and,
  for the names that every object inherits (\<^verbatim>\<open>toString\<close>, \<^verbatim>\<open>constructor\<close> and so on),
  a value that is truthy and has none of the fields of an entry.
\<close>

datatype 'a js_lookup = Own 'a | Inherited | Missing

definition objectPrototypeKeys :: "string list" where
  "objectPrototypeKeys =
     [''constructor'', ''hasOwnProperty'', ''isPrototypeOf'', ''propertyIsEnumerable'',
      ''toLocaleString'', ''toString'', ''valueOf'', ''__proto__'', ''__defineGetter__'',
      ''__defineSetter__'', ''__lookupGetter__'', ''__lookupSetter__'']"

definition js_get :: "(string \<times> 'a) list \<Rightarrow> string \<Rightarrow> 'a js_lookup" where
  "js_get table key =
     (case map_of table key of
        Some v \<Rightarrow> Own v
      | None \<Rightarrow> if key \<in> set objectPrototypeKeys then Inherited else Missing)"

definition thresholds :: "(string \<times> threshold) list" where
  "thresholds =
     [(''soil_moisture'', \<lparr> critical_low = 15, warning_low = 25, warning_high = 75, critical_high = 85 \<rparr>),
      (''soil_temperature'', \<lparr> critical_low = 10, warning_low = 15, warning_high = 32, critical_high = 40 \<rparr>),
      (''soil_ph'', \<lparr> critical_low = 5.0, warning_low = 5.5, warning_high = 7.8, critical_high = 8.5 \<rparr>),
      (''air_temperature'', \<lparr> critical_low = 5, warning_low = 10, warning_high = 38, critical_high = 45 \<rparr>),
      (''humidity'', \<lparr> critical_low = 25, warning_low = 35, warning_high = 80, critical_high = 90 \<rparr>),
      (''light_intensity'', \<lparr> critical_low = 5000, warning_low = 15000, warning_high = 70000, critical_high = 90000 \<rparr>)]"

definition actions :: "(string \<times> (string \<times> string) list) list" where
  "actions =
     [(''soil_moisture'',
        [(''critical_low'', ''Immediate irrigation required''),
         (''warning_low'', ''Schedule irrigation within 24 hours''),
         (''warning_high'', ''Check drainage, reduce irrigation''),
         (''critical_high'', ''Stop irrigation, improve drainage immediately'')]),
      (''soil_temperature'',
        [(''critical_low'', ''Protect crops from cold, consider heating''),
         (''warning_low'', ''Monitor for cold stress''),
         (''warning_high'', ''Increase shade, mulching recommended''),
         (''critical_high'', ''Emergency cooling required'')]),
      (''soil_ph'',
        [(''critical_low'', ''Apply lime to increase pH''),
         (''warning_low'', ''Consider pH adjustment''),
         (''warning_high'', ''Apply sulfur or organic matter''),
         (''critical_high'', ''Immediate pH correction needed'')]),
      (''air_temperature'',
        [(''critical_low'', ''Frost protection measures needed''),
         (''warning_low'', ''Monitor for cold damage''),
         (''warning_high'', ''Provide shade, increase ventilation''),
         (''critical_high'', ''Emergency cooling and shade required'')]),
      (''humidity'',
        [(''critical_low'', ''Increase irrigation, misting''),
         (''warning_low'', ''Monitor plant stress''),
         (''warning_high'', ''Improve ventilation''),
         (''critical_high'', ''Prevent fungal diseases, reduce moisture'')]),
      (''light_intensity'',
        [(''critical_low'', ''Supplement with artificial lighting''),
         (''warning_low'', ''Monitor for reduced photosynthesis''),
         (''warning_high'', ''Provide shade during peak hours''),
         (''critical_high'', ''Immediate shade protection required'')])]"

text \<open>\<^verbatim>\<open>actions[sensorType]?.[alertType] || default\<close>. The service calls this function
  from the four branches of \<^verbatim>\<open>analyzeForAlerts\<close> only, with one of the six sensor types
  and one of the four alert types, where both reads find an own entry. A name that
  reads an inherited property at either level is outside this definition.\<close>

definition getActionForAlert :: "string \<Rightarrow> string \<Rightarrow> string" where
  "getActionForAlert sensorType alertType =
     (case map_of actions sensorType of
        None \<Rightarrow> ''Monitor and take appropriate action''
      | Some table \<Rightarrow>
          (case map_of table alertType of
             None \<Rightarrow> ''Monitor and take appropriate action''
           | Some action \<Rightarrow> action))"

record alert =
  a_type :: string
  a_severity :: string
  a_message :: string
  a_action :: string
  a_timestamp :: string

definition valueAlert ::
  "(real \<Rightarrow> string) \<Rightarrow> clock \<Rightarrow> string \<Rightarrow> string \<Rightarrow> string \<Rightarrow> string \<Rightarrow> string \<Rightarrow> sensor_data \<Rightarrow> alert" where
  "valueAlert sh c type severity phrase alertType sensorType data =
     \<lparr> a_type = type,
       a_severity = severity,
       a_message = sensorType @ phrase @ sh (sd_value data) @ '' '' @ sd_unit data,
       a_action = getActionForAlert sensorType alertType,
       a_timestamp = nowIso c \<rparr>"

definition batteryAlert :: "(real \<Rightarrow> string) \<Rightarrow> clock \<Rightarrow> sensor_data \<Rightarrow> real \<Rightarrow> alert" where
  "batteryAlert sh c data level =
     \<lparr> a_type = ''maintenance'',
       a_severity = ''low'',
       a_message = ''Low battery on '' @ sd_sensorId data @ '': '' @ sh level @ ''%'',
       a_action = ''Replace or recharge sensor battery'',
       a_timestamp = nowIso c \<rparr>"

text \<open>The battery check \<^verbatim>\<open>data.batteryLevel && data.batteryLevel < 20\<close>: a level that is
  missing or zero is falsy.\<close>

definition batteryAlerts :: "(real \<Rightarrow> string) \<Rightarrow> clock \<Rightarrow> sensor_data \<Rightarrow> alert list" where
  "batteryAlerts sh c data =
     (case sd_batteryLevel data of
        None \<Rightarrow> []
      | Some level \<Rightarrow> if level \<noteq> 0 \<and> level < 20 then [batteryAlert sh c data level] else [])"

text \<open>The four-way branch on the value. With an inherited value for \<^verbatim>\<open>threshold\<close> every
  bound is \<^verbatim>\<open>undefined\<close> and every comparison false.\<close>

definition thresholdAlerts ::
  "(real \<Rightarrow> string) \<Rightarrow> clock \<Rightarrow> string \<Rightarrow> sensor_data \<Rightarrow> threshold \<Rightarrow> alert list" where
  "thresholdAlerts sh c sensorType data th =
     (let v = sd_value data
      in if v \<le> critical_low th then
           [valueAlert sh c ''critical'' ''high'' '' critically low: '' ''critical_low'' sensorType data]
         else if v \<le> warning_low th then
           [valueAlert sh c ''warning'' ''medium'' '' below optimal: '' ''warning_low'' sensorType data]
         else if v \<ge> critical_high th then
           [valueAlert sh c ''critical'' ''high'' '' critically high: '' ''critical_high'' sensorType data]
         else if v \<ge> warning_high th then
           [valueAlert sh c ''warning'' ''medium'' '' above optimal: '' ''warning_high'' sensorType data]
         else [])"

definition analyzeForAlerts ::
  "(real \<Rightarrow> string) \<Rightarrow> clock \<Rightarrow> string \<Rightarrow> string \<Rightarrow> sensor_data \<Rightarrow> alert list" where
  "analyzeForAlerts sh c farmId sensorType data =
     (case js_get thresholds sensorType of
        Missing \<Rightarrow> []
      | Inherited \<Rightarrow> batteryAlerts sh c data
      | Own th \<Rightarrow> thresholdAlerts sh c sensorType data th @ batteryAlerts sh c data)"

text \<open>The alerts of an ingested reading: \<^verbatim>\<open>processSensorData\<close> normalizes the payload
  and analyzes the normalized reading under the payload's sensor type.\<close>

definition ingestAlerts :: "(real \<Rightarrow> string) \<Rightarrow> clock \<Rightarrow> sensor_input \<Rightarrow> alert list" where
  "ingestAlerts sh c sensorData =
     analyzeForAlerts sh c (si_farmId sensorData) (si_sensorType sensorData)
       (normalizeSensorData c sensorData)"

text \<open>The value-threshold alerts among the alerts of a reading are those that are not
  the battery alert.\<close>

definition valueThresholdAlerts :: "alert list \<Rightarrow> alert list" where
  "valueThresholdAlerts alerts = filter (\<lambda>a. a_type a \<noteq> ''maintenance'') alerts"

subsection \<open>calculateFarmHealthScore\<close>

definition optimalRanges :: "(string \<times> real \<times> real) list" where
  "optimalRanges =
     [(''soil_moisture'', (40, 60)),
      (''soil_temperature'', (20, 30)),
      (''soil_ph'', (6.0, 7.5)),
      (''air_temperature'', (20, 35)),
      (''humidity'', (50, 70)),
      (''light_intensity'', (30000, 60000))]"

text \<open>
  The argument is an object from sensor type to the latest reading, here the list of its
  entries in key order; an entry whose reading is null is \<open>None\<close>. The callback of
  \<^verbatim>\<open>forEach\<close> returns at once for an entry without a reading and for a reading whose
  value is falsy, which for a number is zero: \<^verbatim>\<open>if (!data || !data.value) return\<close>.
  For a sensor type outside the table, also an inherited name, nothing is subtracted.
  The deviation and the new score are computed in double precision.
\<close>

fun healthLoop :: "(string \<times> sensor_data option) list \<Rightarrow> jsnum \<times> nat \<Rightarrow> jsnum \<times> nat" where
  "healthLoop [] acc = acc"
| "healthLoop ((sensorType, None) # rest) (score, validSensors) =
     healthLoop rest (score, validSensors)"
| "healthLoop ((sensorType, Some data) # rest) (score, validSensors) =
     (if sd_value data = 0 then healthLoop rest (score, validSensors)
      else
        (case js_get optimalRanges sensorType of
           Own (lo, hi) \<Rightarrow>
             if sd_value data < lo \<or> sd_value data > hi then
               (let deviation =
                      d_div (js_abs (d_sub (Num (sd_value data))
                                           (d_div (d_add (Num lo) (Num hi)) (Num 2))))
                            (d_div (d_sub (Num hi) (Num lo)) (Num 2))
                in healthLoop rest
                     (d_sub score (js_min (Num 20) (d_mul deviation (Num 10))), validSensors + 1))
             else healthLoop rest (score, validSensors + 1)
         | Inherited \<Rightarrow> healthLoop rest (score, validSensors + 1)
         | Missing \<Rightarrow> healthLoop rest (score, validSensors + 1)))"

definition calculateFarmHealthScore :: "(string \<times> sensor_data option) list \<Rightarrow> jsnum" where
  "calculateFarmHealthScore sensorData =
     (case healthLoop sensorData (Num 100, 0) of
        (score, validSensors) \<Rightarrow>
          if validSensors > 0 then js_max (Num 0) (js_round_num score) else Num 0)"

text \<open>The score as the specification words it, over the real numbers. The deduction of a
  reading is the specification's ``up to 20 points scaled by the normalized deviation
  from the midpoint'': nothing inside the optimal range, otherwise ten points per
  half-width of distance from the midpoint, at most 20. The score is 100 less the
  deductions of the readings that are present, floored at 0, and 0 when no reading is
  present. These definitions follow the specification, not the source.\<close>

definition spec_deduction :: "string \<times> sensor_data option \<Rightarrow> real" where
  "spec_deduction e =
     (case (map_of optimalRanges (fst e), snd e) of
        (Some (lo, hi), Some d) \<Rightarrow>
          if lo \<le> sd_value d \<and> sd_value d \<le> hi then 0
          else min 20 (10 * (\<bar>sd_value d - (lo + hi) / 2\<bar> / ((hi - lo) / 2)))
      | _ \<Rightarrow> 0)"

definition spec_healthScore :: "(string \<times> sensor_data option) list \<Rightarrow> real" where
  "spec_healthScore sensorData =
     (if filter (\<lambda>e. snd e \<noteq> None) sensorData = [] then 0
      else max 0 (100 - sum_list (map spec_deduction sensorData)))"

definition sampleReading :: "string \<Rightarrow> real \<Rightarrow> real option \<Rightarrow> sensor_data" where
  "sampleReading sensorType v battery =
     \<lparr> sd_farmId = ''farm1'', sd_sensorId = ''sensor_'' @ sensorType @ ''_001'',
       sd_sensorType = sensorType, sd_location = ''field_a'',
       sd_timestamp = ''2023-11-14T22:13:20.000Z'', sd_value = v, sd_unit = ''%'',
       sd_quality = ''good'', sd_batteryLevel = battery,
       sd_processed = ''2023-11-14T22:13:20.000Z'' \<rparr>"

definition sampleInput :: "string \<Rightarrow> real \<Rightarrow> real option \<Rightarrow> sensor_input" where
  "sampleInput sensorType v battery =
     \<lparr> si_farmId = ''farm1'', si_sensorId = ''sensor_'' @ sensorType @ ''_001'',
       si_sensorType = sensorType, si_location = ''field_a'',
       si_timestamp = ''2023-11-14T22:13:20.000Z'',
       si_readings = \<lparr> rd_value = v, rd_unit = ''%'', rd_quality = Some ''good'',
                       rd_batteryLevel = battery \<rparr> \<rparr>"

section \<open>Number rendering for the examples\<close>

text \<open>A stand-in for the conversion of a number to a string: the decimal digits of a
  whole number, with its sign. The examples use whole numbers only.\<close>

fun showNat :: "nat \<Rightarrow> string" where
  "showNat n = (if n < 10 then [''0123456789'' ! n] else showNat (n div 10) @ [''0123456789'' ! (n mod 10)])"

definition showNum :: "real \<Rightarrow> string" where
  "showNum x = (if x < 0 then ''-'' else '''') @ showNat (nat \<lfloor>\<bar>x\<bar>\<rfloor>)"

section \<open>The series statistics as the specification words them\<close>



section \<open>Sample farms\<close>

text \<open>A farm whose six sensors read the midpoints of their optimal ranges; the same farm
  with a soil moisture of zero and of one; and a farm whose only sensor is a light
  sensor reading 0 lux, at night.\<close>

definition sixAtMidpoint :: "(string \<times> sensor_data option) list" where
  "sixAtMidpoint =
     [(''soil_moisture'', Some (sampleReading ''soil_moisture'' 50 (Some 90))),
      (''soil_temperature'', Some (sampleReading ''soil_temperature'' 25 (Some 90))),
      (''soil_ph'', Some (sampleReading ''soil_ph'' 6.75 (Some 90))),
      (''air_temperature'', Some (sampleReading ''air_temperature'' 27.5 (Some 90))),
      (''humidity'', Some (sampleReading ''humidity'' 60 (Some 90))),
      (''light_intensity'', Some (sampleReading ''light_intensity'' 45000 (Some 90)))]"

definition drySoilFarm :: "real \<Rightarrow> (string \<times> sensor_data option) list" where
  "drySoilFarm moisture =
     (''soil_moisture'', Some (sampleReading ''soil_moisture'' moisture (Some 90))) # tl sixAtMidpoint"

definition nightFarm :: "(string \<times> sensor_data option) list" where
  "nightFarm = [(''light_intensity'', Some (sampleReading ''light_intensity'' 0 (Some 90)))]"

section \<open>Sample subscriptions and stores\<close>

definition defaultInput :: "string \<Rightarrow> string list option \<Rightarrow> subscription_input" where
  "defaultInput userId channels =
     \<lparr> in_userId = userId, in_farmId = Some ''farm1'', in_notificationTypes = None,
       in_channels = channels, in_preferences = None \<rparr>"

definition afternoonInput :: subscription_input where
  "afternoonInput =
     \<lparr> in_userId = ''u1'', in_farmId = Some ''farm1'', in_notificationTypes = None,
       in_channels = None,
       in_preferences = Some \<lparr> in_frequency = None,
         in_quietHours = Some \<lparr> qh_start = ''13:00'', qh_end = ''15:00'' \<rparr>,
         in_language = None, in_timezone = None \<rparr> \<rparr>"

definition noResults :: delivery_results where
  "noResults = \<lparr> r_push = None, r_email = None, r_sms = None \<rparr>"

text \<open>The deliveries recorded for a user in a result list all went to the channel set.\<close>

definition deliveredOn :: "clock \<Rightarrow> string list \<Rightarrow> string \<Rightarrow> (string \<times> store_result) list \<Rightarrow> bool" where
  "deliveredOn c chs u results =
     list_all (\<lambda>p. fst p = u \<longrightarrow> delivered (snd p) = deliverLoop c chs noResults) results"

definition farmStore :: kv_store where
  "farmStore = emptyStore\<lparr> kv_farm_users := [''farm1'' \<mapsto> [''u1'']],
                            kv_crop_users := [''tomatoes'' \<mapsto> [''u1'']] \<rparr>"

definition kvTwice :: kv_store where
  "kvTwice = subscribe sampleClock (defaultInput ''u1'' (Some [''email'']))
               (subscribe sampleClock (defaultInput ''u1'' (Some [''sms''])) farmStore)"

definition sampleWeatherAlert :: weather_alert where
  "sampleWeatherAlert = \<lparr> wa_type = ''storm'', wa_message = ''Storm expected'',
     wa_severity = ''severe'', wa_actionRequired = ''Secure equipment'',
     wa_validUntil = ''2023-11-15T22:13:20.000Z'' \<rparr>"

definition samplePrice :: price_data where
  "samplePrice = \<lparr> pd_currentPrice = 56, pd_previousPrice = 50, pd_changePercent = 12,
     pd_trend = ''bullish'' \<rparr>"

section \<open>Properties of the notification store\<close>

lemma kv_user_updateSystemStats: "kv_user (updateSystemStats c n kv) = kv_user kv"
  by (simp add: updateSystemStats_def Let_def)

lemma kv_user_store:
  "kv_user (fst (storeAndDeliverNotification c u n kv)) =
     (kv_user kv)(u \<mapsto> take 100 (n # obj_or (kv_user kv u) []))"
  by (simp add: storeAndDeliverNotification_def Let_def kv_user_updateSystemStats split: sum.splits)

lemma take_append_take: "take k (xs @ take k ys) = take k (xs @ ys)"
  by (induction xs arbitrary: k) (auto simp: take_Cons split: nat.splits)

lemma storeMany_user:
  "kv_user (storeMany u ps kv) u =
     (if ps = [] then kv_user kv u
      else Some (take 100 (rev (map snd ps) @ obj_or (kv_user kv u) [])))"
proof (induction ps arbitrary: kv)
  case Nil
  show ?case by simp
next
  case (Cons p ps)
  obtain c n where p: "p = (c, n)" by (cases p)
  show ?case
    using take_append_take [of 100 "rev (map snd ps)" "n # obj_or (kv_user kv u) []"]
    by (simp add: p Cons.IH kv_user_store obj_or_def)
qed

lemma storeMany_other:
  "v \<noteq> u \<Longrightarrow> kv_user (storeMany u ps kv) v = kv_user kv v"
  by (induction ps arbitrary: kv) (auto simp: kv_user_store)

text \<open>
  \<^bold>\<open>C2.\<close> Storing puts each new notification in front of the user's list and cuts the
  list to its first 100 entries. Starting from a user without stored notifications,
  storing 105 notifications one after the other leaves exactly 100 of them: the last 100
  that were stored, the newest first; the five that were stored first are gone.
\<close>

theorem store_105:
  assumes "obj_or (kv_user kv u) [] = []" and "length ps = 105"
  shows "\<exists>stored. kv_user (storeMany u ps kv) u = Some stored \<and> length stored = 100 \<and>
           stored = rev (drop 5 (map snd ps))"
proof -
  from assms(2) have ne: "ps \<noteq> []" by auto
  have "take 100 (rev (map snd ps)) = rev (drop 5 (map snd ps))"
    using assms(2) by (simp add: take_rev)
  with ne assms show ?thesis by (simp add: storeMany_user)
qed

theorem store_105_witness:
  "obj_or (kv_user emptyStore ''u1'') [] = [] \<and>
   length (map (\<lambda>i. (sampleClock, sampleNotification (replicate i CHR ''x''))) [0..<105]) = 105 \<and>
   (\<exists>stored. kv_user (storeMany ''u1''
        (map (\<lambda>i. (sampleClock, sampleNotification (replicate i CHR ''x''))) [0..<105]) emptyStore) ''u1''
          = Some stored \<and> length stored = 100 \<and>
        stored = rev (drop 5 (map snd
          (map (\<lambda>i. (sampleClock, sampleNotification (replicate i CHR ''x''))) [0..<105]))))"
proof -
  have h1: "obj_or (kv_user emptyStore ''u1'') [] = []"
    by (simp add: obj_or_def emptyStore_def)
  have h2: "length (map (\<lambda>i. (sampleClock, sampleNotification (replicate i CHR ''x''))) [0..<105]) = 105"
    by simp
  from store_105 [OF h1 h2] h1 h2 show ?thesis by blast
qed

lemma updateFirst_none: "\<forall>x\<in>set xs. \<not> P x \<Longrightarrow> updateFirst P f xs = xs"
  by (induction xs) auto

lemma updateFirst_index:
  "\<exists>x\<in>set xs. P x \<Longrightarrow>
     \<exists>i<length xs. P (xs ! i) \<and> (\<forall>j<i. \<not> P (xs ! j)) \<and> updateFirst P f xs = xs[i := f (xs ! i)]"
proof (induction xs)
  case Nil
  then show ?case by simp
next
  case (Cons x xs)
  show ?case
  proof (cases "P x")
    case True
    then have "P ((x # xs) ! 0) \<and> (\<forall>j<0. \<not> P ((x # xs) ! j)) \<and>
        updateFirst P f (x # xs) = (x # xs)[0 := f ((x # xs) ! 0)]"
      by simp
    then show ?thesis by blast
  next
    case False
    with Cons.prems have "\<exists>y\<in>set xs. P y" by auto
    from Cons.IH [OF this] obtain i where i: "i < length xs" "P (xs ! i)"
      "\<forall>j<i. \<not> P (xs ! j)" "updateFirst P f xs = xs[i := f (xs ! i)]"
      by blast
    have "\<forall>j<Suc i. \<not> P ((x # xs) ! j)"
      using False i(3) by (auto simp: nth_Cons split: nat.splits)
    then have "Suc i < length (x # xs) \<and> P ((x # xs) ! Suc i) \<and> (\<forall>j<Suc i. \<not> P ((x # xs) ! j)) \<and>
        updateFirst P f (x # xs) = (x # xs)[Suc i := f ((x # xs) ! Suc i)]"
      using False i by simp
    then show ?thesis by blast
  qed
qed

text \<open>
  \<^bold>\<open>C10.\<close> \<^verbatim>\<open>markAsRead\<close> with an id that no stored notification of the user has
  returns the status \<^verbatim>\<open>notification_not_found\<close> and leaves the store as it is. With an
  id that is present, the first notification with that id, at index \<open>i\<close>, gets
  \<^verbatim>\<open>read = true\<close> and \<^verbatim>\<open>readAt\<close>, the status is \<^verbatim>\<open>marked_as_read\<close>, and the stored
  list differs from the old one at index \<open>i\<close> only.
\<close>

theorem markAsRead_spec:
  "(nid \<notin> n_id ` set (obj_or (kv_user kv u) []) \<longrightarrow>
      markAsRead c u nid kv =
        (kv, \<lparr> m_status = ''notification_not_found'', m_notificationId = None \<rparr>)) \<and>
   (nid \<in> n_id ` set (obj_or (kv_user kv u) []) \<longrightarrow>
      (\<exists>i<length (obj_or (kv_user kv u) []).
          n_id (obj_or (kv_user kv u) [] ! i) = nid \<and>
          (\<forall>j<i. n_id (obj_or (kv_user kv u) [] ! j) \<noteq> nid) \<and>
          markAsRead c u nid kv =
            (kv\<lparr> kv_user := (kv_user kv)(u \<mapsto>
                 (obj_or (kv_user kv u) [])
                   [i := (obj_or (kv_user kv u) [] ! i)\<lparr> n_read := True, n_readAt := Some (nowIso c) \<rparr>]) \<rparr>,
             \<lparr> m_status = ''marked_as_read'', m_notificationId = Some nid \<rparr>)))"
proof (intro conjI impI)
  let ?ns = "obj_or (kv_user kv u) []"
  let ?P = "\<lambda>n. n_id n = nid"
  assume "nid \<notin> n_id ` set ?ns"
  then have "find ?P ?ns = None" by (auto simp: find_None_iff)
  then show "markAsRead c u nid kv =
        (kv, \<lparr> m_status = ''notification_not_found'', m_notificationId = None \<rparr>)"
    by (simp add: markAsRead_def Let_def)
next
  let ?ns = "obj_or (kv_user kv u) []"
  let ?P = "\<lambda>n. n_id n = nid"
  let ?f = "\<lambda>n. n\<lparr> n_read := True, n_readAt := Some (nowIso c) \<rparr>"
  assume "nid \<in> n_id ` set ?ns"
  then have ex: "\<exists>x\<in>set ?ns. ?P x" by auto
  then obtain n where "find ?P ?ns = Some n"
    by (cases "find ?P ?ns") (auto simp: find_None_iff)
  then have m: "markAsRead c u nid kv =
      (kv\<lparr> kv_user := (kv_user kv)(u \<mapsto> updateFirst ?P ?f ?ns) \<rparr>,
       \<lparr> m_status = ''marked_as_read'', m_notificationId = Some nid \<rparr>)"
    by (simp add: markAsRead_def Let_def)
  from updateFirst_index [OF ex, of ?f] obtain i where
    "i < length ?ns" "?P (?ns ! i)" "\<forall>j<i. \<not> ?P (?ns ! j)"
    "updateFirst ?P ?f ?ns = ?ns[i := ?f (?ns ! i)]"
    by blast
  with m show "\<exists>i<length ?ns. n_id (?ns ! i) = nid \<and> (\<forall>j<i. n_id (?ns ! j) \<noteq> nid) \<and>
          markAsRead c u nid kv =
            (kv\<lparr> kv_user := (kv_user kv)(u \<mapsto> ?ns[i := ?f (?ns ! i)]) \<rparr>,
             \<lparr> m_status = ''marked_as_read'', m_notificationId = Some nid \<rparr>)"
    by auto
qed

theorem markAsRead_spec_witness:
  "markAsRead sampleClock ''u1'' ''n9''
      (emptyStore\<lparr> kv_user := [''u1'' \<mapsto> [sampleNotification ''n1'', sampleNotification ''n2'']] \<rparr>) =
     (emptyStore\<lparr> kv_user := [''u1'' \<mapsto> [sampleNotification ''n1'', sampleNotification ''n2'']] \<rparr>,
      \<lparr> m_status = ''notification_not_found'', m_notificationId = None \<rparr>) \<and>
   markAsRead sampleClock ''u1'' ''n2''
      (emptyStore\<lparr> kv_user := [''u1'' \<mapsto> [sampleNotification ''n1'', sampleNotification ''n2'']] \<rparr>) =
     (emptyStore\<lparr> kv_user := [''u1'' \<mapsto> [sampleNotification ''n1'',
         (sampleNotification ''n2'')\<lparr> n_read := True, n_readAt := Some ''2023-11-14T22:13:20.000Z'' \<rparr>]] \<rparr>,
      \<lparr> m_status = ''marked_as_read'', m_notificationId = Some ''n2'' \<rparr>)"
proof -
  let ?kv = "emptyStore\<lparr> kv_user := [''u1'' \<mapsto> [sampleNotification ''n1'', sampleNotification ''n2'']] \<rparr>"
  have ns: "obj_or (kv_user ?kv ''u1'') [] = [sampleNotification ''n1'', sampleNotification ''n2'']"
    by (simp add: obj_or_def emptyStore_def)
  have a: "''n9'' \<notin> n_id ` set (obj_or (kv_user ?kv ''u1'') [])"
    by (simp add: obj_or_def emptyStore_def sampleNotification_def)
  have b: "''n2'' \<in> n_id ` set (obj_or (kv_user ?kv ''u1'') [])"
    by (simp add: obj_or_def emptyStore_def sampleNotification_def)
  from markAsRead_spec [of "''n9''" ?kv "''u1''" sampleClock] a
  have 1: "markAsRead sampleClock ''u1'' ''n9'' ?kv =
      (?kv, \<lparr> m_status = ''notification_not_found'', m_notificationId = None \<rparr>)"
    by blast
  from markAsRead_spec [of "''n2''" ?kv "''u1''" sampleClock] b
  obtain i where i: "i < length (obj_or (kv_user ?kv ''u1'') [])"
      "n_id (obj_or (kv_user ?kv ''u1'') [] ! i) = ''n2''"
      "markAsRead sampleClock ''u1'' ''n2'' ?kv =
         (?kv\<lparr> kv_user := (kv_user ?kv)(''u1'' \<mapsto>
                 (obj_or (kv_user ?kv ''u1'') [])
                   [i := (obj_or (kv_user ?kv ''u1'') [] ! i)\<lparr> n_read := True, n_readAt := Some (nowIso sampleClock) \<rparr>]) \<rparr>,
          \<lparr> m_status = ''marked_as_read'', m_notificationId = Some ''n2'' \<rparr>)"
    by blast
  from i(1,2) have "i = 1"
    by (cases i) (auto simp: obj_or_def emptyStore_def sampleNotification_def)
  with i(3) have 2: "markAsRead sampleClock ''u1'' ''n2'' ?kv =
     (emptyStore\<lparr> kv_user := [''u1'' \<mapsto> [sampleNotification ''n1'',
         (sampleNotification ''n2'')\<lparr> n_read := True, n_readAt := Some ''2023-11-14T22:13:20.000Z'' \<rparr>]] \<rparr>,
      \<lparr> m_status = ''marked_as_read'', m_notificationId = Some ''n2'' \<rparr>)"
    by (simp add: obj_or_def sampleClock_def emptyStore_def)
  from 1 2 show ?thesis by simp
qed

section \<open>Properties of the alert analysis\<close>


lemma valueThresholdAlerts_append:
  "valueThresholdAlerts (xs @ ys) = valueThresholdAlerts xs @ valueThresholdAlerts ys"
  by (simp add: valueThresholdAlerts_def)

lemma valueThresholdAlerts_threshold:
  "valueThresholdAlerts (thresholdAlerts sh c st data th) = thresholdAlerts sh c st data th"
  by (simp add: valueThresholdAlerts_def thresholdAlerts_def valueAlert_def Let_def)






lemma thresholdAlerts_battery:
  "thresholdAlerts sh c st (d\<lparr> sd_batteryLevel := x \<rparr>) th = thresholdAlerts sh c st d th"
  by (simp add: thresholdAlerts_def valueAlert_def Let_def)

lemma normalize_no_battery:
  "normalizeSensorData c (inp\<lparr> si_readings := (si_readings inp)\<lparr> rd_batteryLevel := None \<rparr> \<rparr>) =
     (normalizeSensorData c inp)\<lparr> sd_batteryLevel := None \<rparr>"
  by (simp add: normalizeSensorData_def num_or_null_def)

text \<open>
  \<^bold>\<open>C8\<close>, as stated, fails: a reading of a sensor type without an entry in the
  threshold table leaves the analysis before the battery check, so a battery level of 10
  raises no alert.
\<close>

theorem battery_unknown_type_counterexample:
  "rd_batteryLevel (si_readings (sampleInput ''wind_speed'' 12 (Some 10))) = Some 10 \<and>
   (10::real) < 20 \<and>
   ingestAlerts showNum sampleClock (sampleInput ''wind_speed'' 12 (Some 10)) = []"
  by (simp add: sampleInput_def ingestAlerts_def analyzeForAlerts_def js_get_def thresholds_def
      objectPrototypeKeys_def)

lemma js_get_thresholds_missing:
  "(js_get thresholds st = Missing) =
     (st \<notin> set (map fst thresholds) \<and> st \<notin> set objectPrototypeKeys)"
  by (auto simp: js_get_def map_of_eq_None_iff [symmetric] split: option.splits)

text \<open>
  \<^bold>\<open>C8\<close>, amended. A reading of a sensor type that is neither one of the six types of
  the threshold table nor a name that every object inherits (\<^verbatim>\<open>toString\<close>,
  \<^verbatim>\<open>constructor\<close> and the like) gets no alert at all. For every other reading whose
  battery level is not zero and below 20, the analysis appends a maintenance alert of
  severity \<^verbatim>\<open>low\<close> after the value-threshold alerts, and these are the alerts the same
  reading gets without a battery level.
\<close>

theorem battery_alert_appended:
  "(js_get thresholds (si_sensorType inp) = Missing) =
     (si_sensorType inp \<notin> set (map fst thresholds) \<and>
      si_sensorType inp \<notin> set objectPrototypeKeys) \<and>
   (js_get thresholds (si_sensorType inp) = Missing \<longrightarrow> ingestAlerts sh c inp = []) \<and>
   (js_get thresholds (si_sensorType inp) \<noteq> Missing \<and>
    rd_batteryLevel (si_readings inp) = Some b \<and> b \<noteq> 0 \<and> b < 20 \<longrightarrow>
      ingestAlerts sh c inp =
        valueThresholdAlerts (ingestAlerts sh c inp) @
        [\<lparr> a_type = ''maintenance'', a_severity = ''low'',
           a_message = ''Low battery on '' @ si_sensorId inp @ '': '' @ sh b @ ''%'',
           a_action = ''Replace or recharge sensor battery'', a_timestamp = nowIso c \<rparr>] \<and>
      valueThresholdAlerts (ingestAlerts sh c inp) =
        ingestAlerts sh c (inp\<lparr> si_readings := (si_readings inp)\<lparr> rd_batteryLevel := None \<rparr> \<rparr>))"
proof (intro conjI impI)
  show "(js_get thresholds (si_sensorType inp) = Missing) =
     (si_sensorType inp \<notin> set (map fst thresholds) \<and>
      si_sensorType inp \<notin> set objectPrototypeKeys)"
    by (rule js_get_thresholds_missing)
next
  assume "js_get thresholds (si_sensorType inp) = Missing"
  then show "ingestAlerts sh c inp = []"
    by (simp add: ingestAlerts_def analyzeForAlerts_def)
next
  assume a: "js_get thresholds (si_sensorType inp) \<noteq> Missing \<and>
    rd_batteryLevel (si_readings inp) = Some b \<and> b \<noteq> 0 \<and> b < 20"
  let ?d = "normalizeSensorData c inp"
  let ?m = "\<lparr> a_type = ''maintenance'', a_severity = ''low'',
         a_message = ''Low battery on '' @ si_sensorId inp @ '': '' @ sh b @ ''%'',
         a_action = ''Replace or recharge sensor battery'', a_timestamp = nowIso c \<rparr>"
  let ?v = "case js_get thresholds (si_sensorType inp) of
              Own th \<Rightarrow> thresholdAlerts sh c (si_sensorType inp) ?d th | _ \<Rightarrow> []"
  have bat: "sd_batteryLevel ?d = Some b"
    using a by (simp add: normalizeSensorData_def num_or_null_def)
  have balerts: "batteryAlerts sh c ?d = [?m]"
    using a bat by (simp add: batteryAlerts_def batteryAlert_def normalizeSensorData_def)
  have all: "ingestAlerts sh c inp = ?v @ [?m]"
    using a by (simp add: ingestAlerts_def analyzeForAlerts_def balerts split: js_lookup.splits)
  have m: "valueThresholdAlerts [?m] = []"
    by (simp add: valueThresholdAlerts_def)
  have v: "valueThresholdAlerts ?v = ?v"
    by (cases "js_get thresholds (si_sensorType inp)")
       (simp_all add: valueThresholdAlerts_threshold, simp_all add: valueThresholdAlerts_def)
  have val: "valueThresholdAlerts (ingestAlerts sh c inp) = ?v"
    by (simp only: all valueThresholdAlerts_append m v) simp
  show "ingestAlerts sh c inp = valueThresholdAlerts (ingestAlerts sh c inp) @ [?m]"
    by (simp only: val) (simp only: all)
  have "ingestAlerts sh c (inp\<lparr> si_readings := (si_readings inp)\<lparr> rd_batteryLevel := None \<rparr> \<rparr>) = ?v"
    by (simp add: ingestAlerts_def analyzeForAlerts_def normalize_no_battery
        thresholdAlerts_battery batteryAlerts_def split: js_lookup.splits)
  with val show "valueThresholdAlerts (ingestAlerts sh c inp) =
        ingestAlerts sh c (inp\<lparr> si_readings := (si_readings inp)\<lparr> rd_batteryLevel := None \<rparr> \<rparr>)"
    by simp
qed

theorem battery_alert_appended_witness:
  "ingestAlerts showNum sampleClock (sampleInput ''rainfall'' 3 (Some 10)) = [] \<and>
   ingestAlerts showNum sampleClock (sampleInput ''soil_moisture'' 10 (Some 12)) =
     [\<lparr> a_type = ''critical'', a_severity = ''high'',
        a_message = ''soil_moisture critically low: 10 %'',
        a_action = ''Immediate irrigation required'', a_timestamp = ''2023-11-14T22:13:20.000Z'' \<rparr>,
      \<lparr> a_type = ''maintenance'', a_severity = ''low'',
        a_message = ''Low battery on sensor_soil_moisture_001: 12%'',
        a_action = ''Replace or recharge sensor battery'', a_timestamp = ''2023-11-14T22:13:20.000Z'' \<rparr>] \<and>
   ingestAlerts showNum sampleClock (sampleInput ''toString'' 3 (Some 10)) =
     [\<lparr> a_type = ''maintenance'', a_severity = ''low'',
        a_message = ''Low battery on sensor_toString_001: 10%'',
        a_action = ''Replace or recharge sensor battery'', a_timestamp = ''2023-11-14T22:13:20.000Z'' \<rparr>]"
proof -
  let ?u = "sampleInput ''rainfall'' 3 (Some 10)"
  let ?k = "sampleInput ''soil_moisture'' 10 (Some 12)"
  let ?t = "sampleInput ''toString'' 3 (Some 10)"
  have m: "js_get thresholds (si_sensorType ?u) = Missing"
    by (simp add: sampleInput_def js_get_def thresholds_def objectPrototypeKeys_def)
  have h: "js_get thresholds (si_sensorType ?k) \<noteq> Missing \<and>
    rd_batteryLevel (si_readings ?k) = Some 12 \<and> (12::real) \<noteq> 0 \<and> (12::real) < 20"
    by (simp add: sampleInput_def js_get_def thresholds_def)
  have i: "js_get thresholds (si_sensorType ?t) \<noteq> Missing \<and>
    rd_batteryLevel (si_readings ?t) = Some 10 \<and> (10::real) \<noteq> 0 \<and> (10::real) < 20"
    by (simp add: sampleInput_def js_get_def thresholds_def objectPrototypeKeys_def)
  have v: "ingestAlerts showNum sampleClock (?k\<lparr> si_readings := (si_readings ?k)\<lparr> rd_batteryLevel := None \<rparr> \<rparr>) =
     [\<lparr> a_type = ''critical'', a_severity = ''high'',
        a_message = ''soil_moisture critically low: 10 %'',
        a_action = ''Immediate irrigation required'', a_timestamp = ''2023-11-14T22:13:20.000Z'' \<rparr>]"
    by (simp add: sampleInput_def ingestAlerts_def analyzeForAlerts_def js_get_def thresholds_def
        normalizeSensorData_def num_or_null_def thresholdAlerts_def valueAlert_def batteryAlerts_def
        getActionForAlert_def actions_def showNum_def sampleClock_def)
  have w: "ingestAlerts showNum sampleClock (?t\<lparr> si_readings := (si_readings ?t)\<lparr> rd_batteryLevel := None \<rparr> \<rparr>) = []"
    by (simp add: sampleInput_def ingestAlerts_def analyzeForAlerts_def js_get_def thresholds_def
        objectPrototypeKeys_def normalizeSensorData_def num_or_null_def batteryAlerts_def)
  have s: "si_sensorId ?k = ''sensor_soil_moisture_001''" "showNum 12 = ''12''"
    "si_sensorId ?t = ''sensor_toString_001''" "showNum 10 = ''10''"
    "nowIso sampleClock = ''2023-11-14T22:13:20.000Z''"
    by (simp_all add: sampleInput_def showNum_def sampleClock_def)
  from battery_alert_appended [where inp = ?u and sh = showNum and c = sampleClock] m
  have 1: "ingestAlerts showNum sampleClock ?u = []" by blast
  from battery_alert_appended [where inp = ?k and sh = showNum and c = sampleClock and b = 12] h
  have "ingestAlerts showNum sampleClock ?k =
        valueThresholdAlerts (ingestAlerts showNum sampleClock ?k) @
        [\<lparr> a_type = ''maintenance'', a_severity = ''low'',
           a_message = ''Low battery on '' @ si_sensorId ?k @ '': '' @ showNum 12 @ ''%'',
           a_action = ''Replace or recharge sensor battery'', a_timestamp = nowIso sampleClock \<rparr>]"
    and "valueThresholdAlerts (ingestAlerts showNum sampleClock ?k) =
        ingestAlerts showNum sampleClock (?k\<lparr> si_readings := (si_readings ?k)\<lparr> rd_batteryLevel := None \<rparr> \<rparr>)"
    by blast+
  then have 2: "ingestAlerts showNum sampleClock ?k =
     [\<lparr> a_type = ''critical'', a_severity = ''high'',
        a_message = ''soil_moisture critically low: 10 %'',
        a_action = ''Immediate irrigation required'', a_timestamp = ''2023-11-14T22:13:20.000Z'' \<rparr>,
      \<lparr> a_type = ''maintenance'', a_severity = ''low'',
        a_message = ''Low battery on sensor_soil_moisture_001: 12%'',
        a_action = ''Replace or recharge sensor battery'', a_timestamp = ''2023-11-14T22:13:20.000Z'' \<rparr>]"
    by (simp only: v s) simp
  from battery_alert_appended [where inp = ?t and sh = showNum and c = sampleClock and b = 10] i
  have "ingestAlerts showNum sampleClock ?t =
        valueThresholdAlerts (ingestAlerts showNum sampleClock ?t) @
        [\<lparr> a_type = ''maintenance'', a_severity = ''low'',
           a_message = ''Low battery on '' @ si_sensorId ?t @ '': '' @ showNum 10 @ ''%'',
           a_action = ''Replace or recharge sensor battery'', a_timestamp = nowIso sampleClock \<rparr>]"
    and "valueThresholdAlerts (ingestAlerts showNum sampleClock ?t) =
        ingestAlerts showNum sampleClock (?t\<lparr> si_readings := (si_readings ?t)\<lparr> rd_batteryLevel := None \<rparr> \<rparr>)"
    by blast+
  then have 3: "ingestAlerts showNum sampleClock ?t =
     [\<lparr> a_type = ''maintenance'', a_severity = ''low'',
        a_message = ''Low battery on sensor_toString_001: 10%'',
        a_action = ''Replace or recharge sensor battery'', a_timestamp = ''2023-11-14T22:13:20.000Z'' \<rparr>]"
    by (simp only: w s) simp
  from 1 2 3 show ?thesis by simp
qed

text \<open>A battery level of zero is dropped by the normalization (\<^verbatim>\<open>|| null\<close>) and would
  fail the truthiness test of the battery check as well: an empty battery raises no
  maintenance alert.\<close>

lemma battery_zero_no_alert:
  "ingestAlerts showNum sampleClock (sampleInput ''soil_moisture'' 50 (Some 0)) = []"
  by (simp add: sampleInput_def ingestAlerts_def analyzeForAlerts_def js_get_def thresholds_def
      normalizeSensorData_def num_or_null_def thresholdAlerts_def batteryAlerts_def)

section \<open>Properties of double-precision rounding\<close>

lemma ilog2_bounds:
  assumes "0 < a"
  shows "2 powi (ilog2 a) \<le> a \<and> a < 2 powi (ilog2 a + 1)"
proof (cases "1 \<le> a")
  case True
  let ?m = "\<lfloor>a\<rfloor>"
  from True have m: "0 < ?m" by linarith
  from bitlen_bounds [OF m] have b: "2 ^ nat (bitlen ?m - 1) \<le> ?m" "?m < 2 ^ nat (bitlen ?m)"
    by simp_all
  from m have bl: "1 \<le> bitlen ?m" by (auto simp: bitlen_alt_def)
  have e: "ilog2 a = bitlen ?m - 1" using True by (simp add: ilog2_def)
  have "(2::real) powi (bitlen ?m - 1) = 2 ^ nat (bitlen ?m - 1)"
    using bl by (simp add: power_int_def)
  also have "\<dots> = of_int (2 ^ nat (bitlen ?m - 1))" by simp
  also have "\<dots> \<le> of_int ?m" using b(1) by (simp only: of_int_le_iff)
  also have "\<dots> \<le> a" by simp
  finally have lo: "2 powi (ilog2 a) \<le> a" by (simp add: e)
  have "?m + 1 \<le> 2 ^ nat (bitlen ?m)" using b(2) by simp
  then have "of_int (?m + 1) \<le> (of_int (2 ^ nat (bitlen ?m)) :: real)"
    by (simp only: of_int_le_iff)
  then have "a < 2 ^ nat (bitlen ?m)"
    by (simp add: floor_less_iff) linarith
  also have "(2::real) ^ nat (bitlen ?m) = 2 powi (bitlen ?m - 1 + 1)"
    using bl by (simp add: power_int_def)
  finally have "a < 2 powi (ilog2 a + 1)" by (simp add: e)
  with lo show ?thesis by simp
next
  case False
  let ?m = "\<lfloor>1 / a\<rfloor>"
  let ?k = "bitlen ?m - 1"
  from False assms have a1: "1 < 1 / a" by simp
  then have m: "0 < ?m" by linarith
  from bitlen_bounds [OF m] have b: "2 ^ nat ?k \<le> ?m" "?m < 2 ^ nat (bitlen ?m)"
    by simp_all
  from m have bl: "1 \<le> bitlen ?m" by (auto simp: bitlen_alt_def)
  then have k0: "0 \<le> ?k" by simp
  have p: "(2::real) powi ?k = 2 ^ nat ?k" using k0 by (simp add: power_int_def)
  have "(2::real) ^ nat ?k = of_int (2 ^ nat ?k)" by simp
  also have "\<dots> \<le> of_int ?m" using b(1) by (simp only: of_int_le_iff)
  also have "\<dots> \<le> 1 / a" by simp
  finally have up: "a * 2 powi ?k \<le> 1"
    using assms by (simp add: p field_simps)
  have "?m + 1 \<le> 2 ^ nat (bitlen ?m)" using b(2) by simp
  then have "of_int (?m + 1) \<le> (of_int (2 ^ nat (bitlen ?m)) :: real)"
    by (simp only: of_int_le_iff)
  then have "1 / a < 2 ^ nat (bitlen ?m)"
    by (simp add: floor_less_iff) linarith
  also have "(2::real) ^ nat (bitlen ?m) = 2 * 2 powi ?k"
  proof -
    have "nat (bitlen ?m) = Suc (nat ?k)" using bl by simp
    then show ?thesis by (simp add: p)
  qed
  finally have lo: "1 < a * (2 * 2 powi ?k)"
    using assms by (simp add: field_simps)
  have pk: "(0::real) < 2 powi ?k" by simp
  have inv: "(2::real) powi (- ?k) = 1 / 2 powi ?k" "(2::real) powi (- ?k - 1) = 1 / (2 * 2 powi ?k)"
    "(2::real) powi (- ?k + 1) = 2 / 2 powi ?k"
    by (simp_all add: power_int_minus power_int_diff power_int_add field_simps)
  show ?thesis
  proof (cases "a * 2 powi ?k = 1")
    case True
    then have e: "ilog2 a = - ?k" using False by (simp add: ilog2_def Let_def)
    from True pk have "a = 1 / 2 powi ?k" by (simp add: field_simps)
    then show ?thesis unfolding e inv using pk by (simp add: field_simps)
  next
    case ne: False
    then have e: "ilog2 a = - ?k - 1" using False by (simp add: ilog2_def Let_def)
    from ne up have "a * 2 powi ?k < 1" by simp
    then have "a < 1 / 2 powi ?k" using pk by (simp add: field_simps)
    moreover from lo pk have "1 / (2 * 2 powi ?k) \<le> a" by (simp add: field_simps)
    ultimately show ?thesis unfolding e using inv by simp
  qed
qed

lemma pow2_less_imp: "(2::real) powi m < 2 powi n \<Longrightarrow> m < n"
proof (rule ccontr)
  assume a: "(2::real) powi m < 2 powi n" and "\<not> m < n"
  then have "n \<le> m" by simp
  then have "(2::real) powi n \<le> 2 powi m" by (intro power_int_increasing) simp_all
  with a show False by simp
qed

lemma ilog2_unique:
  assumes "2 powi e \<le> a" "a < 2 powi (e + 1)"
  shows "ilog2 a = e"
proof -
  have "(0::real) < 2 powi e" by simp
  with assms(1) have pos: "0 < a" by linarith
  from ilog2_bounds [OF pos] have b: "2 powi (ilog2 a) \<le> a" "a < 2 powi (ilog2 a + 1)" by simp_all
  have "(2::real) powi e < 2 powi (ilog2 a + 1)" using assms(1) b(2) by linarith
  then have 1: "e < ilog2 a + 1" by (rule pow2_less_imp)
  have "(2::real) powi (ilog2 a) < 2 powi (e + 1)" using assms(2) b(1) by linarith
  then have 2: "ilog2 a < e + 1" by (rule pow2_less_imp)
  from 1 2 show ?thesis by simp
qed

lemma rne_err: "\<bar>of_int (rne y) - y\<bar> \<le> 1 / 2"
  unfolding rne_def by (auto; linarith)



lemma ulp_pos: "0 < ulp x"
  by (simp add: ulp_def)

lemma fl_err_ulp: "\<bar>fl x - x\<bar> \<le> ulp x / 2"
proof -
  have "fl x - x = (of_int (rne (x / ulp x)) - x / ulp x) * ulp x"
    using ulp_pos [of x] by (simp add: fl_def field_simps)
  then have "\<bar>fl x - x\<bar> = \<bar>of_int (rne (x / ulp x)) - x / ulp x\<bar> * ulp x"
    using ulp_pos [of x] by (simp add: abs_mult)
  also have "\<dots> \<le> 1 / 2 * ulp x"
    using rne_err [of "x / ulp x"] ulp_pos [of x] by (intro mult_right_mono) simp_all
  finally show ?thesis by simp
qed


lemma expo_normal:
  assumes "2 powi (- 1022) \<le> \<bar>x\<bar>"
  shows "expo x = ilog2 \<bar>x\<bar> \<and> 2 powi (expo x) \<le> \<bar>x\<bar>"
proof -
  have "(0::real) < 2 powi (- 1022)" by simp
  with assms have pos: "0 < \<bar>x\<bar>" by linarith
  from ilog2_bounds [OF pos] have b: "2 powi (ilog2 \<bar>x\<bar>) \<le> \<bar>x\<bar>" "\<bar>x\<bar> < 2 powi (ilog2 \<bar>x\<bar> + 1)"
    by simp_all
  have "(2::real) powi (- 1022) < 2 powi (ilog2 \<bar>x\<bar> + 1)" using assms b(2) by linarith
  then have "- 1022 < ilog2 \<bar>x\<bar> + 1" by (rule pow2_less_imp)
  then have "expo x = ilog2 \<bar>x\<bar>" using pos by (simp add: expo_def)
  with b(1) show ?thesis by (simp only: simp_thms)
qed

lemma fl_err_normal:
  assumes "2 powi (- 1022) \<le> \<bar>x\<bar>"
  shows "\<bar>fl x - x\<bar> \<le> \<bar>x\<bar> / 2 ^ 53"
proof -
  from expo_normal [OF assms] have e: "2 powi (expo x) \<le> \<bar>x\<bar>" by blast
  have "ulp x / 2 = 2 powi (expo x) / 2 ^ 53"
    by (simp add: ulp_def power_int_diff)
  also have "\<dots> \<le> \<bar>x\<bar> / 2 ^ 53" using e by (simp add: divide_right_mono)
  finally show ?thesis using fl_err_ulp [of x] by linarith
qed

lemma expo_subnormal:
  assumes "\<bar>x\<bar> < 2 powi (- 1022)"
  shows "expo x = - 1022"
proof (cases "x = 0")
  case True
  then show ?thesis by (simp add: expo_def)
next
  case False
  then have pos: "0 < \<bar>x\<bar>" by simp
  from ilog2_bounds [OF pos] have "2 powi (ilog2 \<bar>x\<bar>) \<le> \<bar>x\<bar>" by simp
  with assms have "(2::real) powi (ilog2 \<bar>x\<bar>) < 2 powi (- 1022)" by linarith
  then have "ilog2 \<bar>x\<bar> < - 1022" by (rule pow2_less_imp)
  then show ?thesis using False by (simp add: expo_def)
qed

lemma fl_err:
  "\<bar>fl x - x\<bar> \<le> \<bar>x\<bar> / 2 ^ 53 + 2 powi (- 1075)"
proof (cases "2 powi (- 1022) \<le> \<bar>x\<bar>")
  case True
  have "(0::real) < 2 powi (- 1075)" by simp
  with fl_err_normal [OF True] show ?thesis by linarith
next
  case False
  then have "expo x = - 1022" by (intro expo_subnormal) simp
  then have "ulp x / 2 = 2 powi (- 1075)"
    by (simp add: ulp_def power_int_diff power_int_minus)
  with fl_err_ulp [of x] have "\<bar>fl x - x\<bar> \<le> 2 powi (- 1075)" by simp
  moreover have "0 \<le> \<bar>x\<bar> / 2 ^ 53" by simp
  ultimately show ?thesis by linarith
qed

lemma fl_err_M:
  assumes "\<bar>x\<bar> \<le> M" "1 \<le> M"
  shows "\<bar>fl x - x\<bar> \<le> M / 2 ^ 52"
proof -
  have "(2::real) powi (- 1075) \<le> 1 / 2 ^ 53"
    by (simp add: power_int_minus field_simps power_increasing)
  also have "\<dots> \<le> M / 2 ^ 53" using assms(2) by (simp add: divide_right_mono)
  finally have "2 powi (- 1075) \<le> M / 2 ^ 53" .
  moreover have "\<bar>x\<bar> / 2 ^ 53 \<le> M / 2 ^ 53" using assms(1) by (simp add: divide_right_mono)
  moreover have "M / 2 ^ 53 + M / 2 ^ 53 = M / 2 ^ 52" by simp
  ultimately show ?thesis using fl_err [of x] by linarith
qed


lemma fl_zero: "fl 0 = 0"
  by (simp add: fl_def rne_def)


lemma fl_eval:
  assumes "2 powi e \<le> \<bar>x\<bar>" "\<bar>x\<bar> < 2 powi (e + 1)" "- 1022 \<le> e"
  shows "fl x = of_int (rne (x / 2 powi (e - 52))) * 2 powi (e - 52)"
proof -
  have "(0::real) < 2 powi e" by simp
  with assms(1) have "0 < \<bar>x\<bar>" by linarith
  then have "x \<noteq> 0" by simp
  moreover from ilog2_unique [OF assms(1,2)] have "ilog2 \<bar>x\<bar> = e" .
  ultimately have "expo x = e" using assms(3) by (simp add: expo_def)
  then show ?thesis by (simp add: fl_def ulp_def)
qed

text \<open>A whole number of magnitude below \<open>2 ^ 53\<close> is a double.\<close>

lemma rne_of_int: "rne (of_int m) = m"
  by (simp add: rne_def)

lemma fl_of_int:
  assumes "\<bar>n\<bar> < 2 ^ 53"
  shows "fl (of_int n) = of_int n"
proof (cases "n = 0")
  case True
  then show ?thesis by (simp add: fl_zero)
next
  case False
  define x :: real where "x = of_int n"
  from False have "1 \<le> \<bar>n\<bar>" by simp
  then have "(1::real) \<le> of_int \<bar>n\<bar>" by (simp only: of_int_1_le_iff)
  then have x1: "1 \<le> \<bar>x\<bar>" by (simp add: x_def)
  have "(2::real) powi (- 1022) \<le> 1"
    by (simp add: power_int_minus field_simps)
  with x1 have "2 powi (- 1022) \<le> \<bar>x\<bar>" by linarith
  from expo_normal [OF this] have e: "2 powi (expo x) \<le> \<bar>x\<bar>" by blast
  from assms have "(of_int \<bar>n\<bar> :: real) < of_int (2 ^ 53)" by (simp only: of_int_less_iff)
  then have "\<bar>x\<bar> < 2 powi 53" by (simp add: x_def)
  with e have "(2::real) powi (expo x) < 2 powi 53" by linarith
  then have e53: "expo x < 53" by (rule pow2_less_imp)
  define k where "k = nat (52 - expo x)"
  have u: "ulp x = 1 / 2 ^ k"
    using e53 by (simp add: ulp_def k_def power_int_def field_simps)
  have "x / ulp x = x * 2 ^ k" by (simp add: u)
  then have "x / ulp x = of_int (n * 2 ^ k)" by (simp add: x_def)
  then have "rne (x / ulp x) = n * 2 ^ k" by (simp only: rne_of_int)
  then have "fl x = of_int n" by (simp add: fl_def u)
  then show ?thesis by (simp add: x_def)
qed

lemma fl_numeral: "\<bar>numeral w :: int\<bar> < 2 ^ 53 \<Longrightarrow> fl (numeral w) = numeral w"
  using fl_of_int [of "numeral w"] by simp

lemma fl_neg_numeral: "\<bar>numeral w :: int\<bar> < 2 ^ 53 \<Longrightarrow> fl (- numeral w) = - numeral w"
  using fl_of_int [of "- numeral w"] by simp

subsection \<open>Error bounds of the operations\<close>

lemma js_rnd_bound:
  assumes "\<bar>x\<bar> \<le> M" "1 \<le> M" "M \<le> 2 ^ 1000"
  shows "js_rnd x = Num (fl x) \<and> \<bar>fl x - x\<bar> \<le> M / 2 ^ 52"
proof -
  from fl_err_M [OF assms(1,2)] have e: "\<bar>fl x - x\<bar> \<le> M / 2 ^ 52" .
  have "M / 2 ^ 52 \<le> M" using assms(2) by (simp add: field_simps)
  with e assms(1) have "\<bar>fl x\<bar> \<le> 2 * M" by linarith
  also have "\<dots> \<le> 2 * 2 ^ 1000" using assms(3) by simp
  also have "\<dots> < (2::real) ^ 1024" by simp
  finally have "\<not> 2 ^ 1024 \<le> \<bar>fl x\<bar>" by simp
  then have "js_rnd x = Num (fl x)" by (simp add: js_rnd_def)
  with e show ?thesis by simp
qed

lemma lit_step:
  assumes "\<bar>c\<bar> \<le> C" "C \<le> 1000"
  shows "\<exists>c'. lit c = Num c' \<and> \<bar>c' - c\<bar> \<le> (C + 1) / 2 ^ 52"
proof -
  have "\<bar>c\<bar> \<le> C + 1" "1 \<le> C + 1" "C + 1 \<le> 2 ^ 1000"
    using assms by simp_all
  from js_rnd_bound [OF this] show ?thesis by (simp add: lit_def)
qed

lemma mul_step:
  assumes x: "\<bar>x' - x\<bar> \<le> ex" "\<bar>x\<bar> \<le> X" and y: "\<bar>y' - y\<bar> \<le> ey" "\<bar>y\<bar> \<le> Y"
      and E: "(X + ex) * ey + Y * ex + ((X + ex) * (Y + ey) + 1) / 2 ^ 52 \<le> E"
      and big: "(X + ex) * (Y + ey) + 1 \<le> 2 ^ 1000"
  shows "\<exists>z. d_mul (Num x') (Num y') = Num z \<and> \<bar>z - x * y\<bar> \<le> E \<and> \<bar>x * y\<bar> \<le> X * Y"
proof -
  have x'b: "\<bar>x'\<bar> \<le> X + ex" using x by linarith
  have y'b: "\<bar>y'\<bar> \<le> Y + ey" using y by linarith
  have nn: "0 \<le> ex" "0 \<le> ey" "0 \<le> X" "0 \<le> Y" using x y by linarith+
  have p: "\<bar>x' * y'\<bar> \<le> (X + ex) * (Y + ey)"
    unfolding abs_mult using x'b y'b by (intro mult_mono) simp_all
  then have pM: "\<bar>x' * y'\<bar> \<le> (X + ex) * (Y + ey) + 1" by simp
  have M1: "1 \<le> (X + ex) * (Y + ey) + 1" using nn by simp
  from js_rnd_bound [OF pM M1 big]
  have r: "js_rnd (x' * y') = Num (fl (x' * y'))"
    "\<bar>fl (x' * y') - x' * y'\<bar> \<le> ((X + ex) * (Y + ey) + 1) / 2 ^ 52" by simp_all
  have "x' * y' - x * y = x' * (y' - y) + y * (x' - x)" by (simp add: algebra_simps)
  then have "\<bar>x' * y' - x * y\<bar> \<le> \<bar>x' * (y' - y)\<bar> + \<bar>y * (x' - x)\<bar>" by simp
  also have "\<bar>x' * (y' - y)\<bar> \<le> (X + ex) * ey"
    unfolding abs_mult using x'b y(1) by (intro mult_mono) simp_all
  also have "\<bar>y * (x' - x)\<bar> \<le> Y * ex"
    unfolding abs_mult using y(2) x(1) nn by (intro mult_mono) simp_all
  finally have d: "\<bar>x' * y' - x * y\<bar> \<le> (X + ex) * ey + Y * ex" by simp
  have "\<bar>fl (x' * y') - x * y\<bar> \<le> E" using r(2) d E by linarith
  moreover have "\<bar>x * y\<bar> \<le> X * Y"
    unfolding abs_mult using x(2) y(2) by (intro mult_mono) simp_all
  ultimately show ?thesis using r(1) by (simp add: d_mul_def)
qed

lemma add_step:
  assumes x: "\<bar>x' - x\<bar> \<le> ex" "\<bar>x\<bar> \<le> X" and y: "\<bar>y' - y\<bar> \<le> ey" "\<bar>y\<bar> \<le> Y"
      and E: "ex + ey + (X + ex + Y + ey + 1) / 2 ^ 52 \<le> E"
      and big: "X + ex + Y + ey + 1 \<le> 2 ^ 1000"
  shows "\<exists>z. d_add (Num x') (Num y') = Num z \<and> \<bar>z - (x + y)\<bar> \<le> E \<and> \<bar>x + y\<bar> \<le> X + Y"
proof -
  have nn: "0 \<le> ex" "0 \<le> ey" "0 \<le> X" "0 \<le> Y" using x y by linarith+
  have pM: "\<bar>x' + y'\<bar> \<le> X + ex + Y + ey + 1" using x y by linarith
  have M1: "1 \<le> X + ex + Y + ey + 1" using nn by simp
  from js_rnd_bound [OF pM M1 big]
  have r: "js_rnd (x' + y') = Num (fl (x' + y'))"
    "\<bar>fl (x' + y') - (x' + y')\<bar> \<le> (X + ex + Y + ey + 1) / 2 ^ 52" by simp_all
  have "\<bar>fl (x' + y') - (x + y)\<bar> \<le> E" using r(2) x(1) y(1) E by linarith
  moreover have "\<bar>x + y\<bar> \<le> X + Y" using x(2) y(2) by linarith
  ultimately show ?thesis using r(1) by (simp add: d_add_def)
qed


lemma div_step:
  assumes x: "\<bar>x' - x\<bar> \<le> ex" "\<bar>x\<bar> \<le> X" and y: "\<bar>y' - y\<bar> \<le> ey" "Ylo \<le> y"
      and lo: "ey < Ylo"
      and E: "ex / (Ylo - ey) + X * ey / (Ylo * (Ylo - ey)) + ((X + ex) / (Ylo - ey) + 1) / 2 ^ 52 \<le> E"
      and big: "(X + ex) / (Ylo - ey) + 1 \<le> 2 ^ 1000"
  shows "\<exists>z. d_div (Num x') (Num y') = Num z \<and> \<bar>z - x / y\<bar> \<le> E \<and> \<bar>x / y\<bar> \<le> X / Ylo"
proof -
  have nn: "0 \<le> ex" "0 \<le> ey" "0 \<le> X" using x y by linarith+
  have w: "0 < Ylo - ey" using lo by simp
  have ylo: "0 < Ylo" using lo nn by linarith
  have ypos: "0 < y" using y(2) ylo by linarith
  have y'lo: "Ylo - ey \<le> y'" using y by linarith
  then have y'pos: "0 < y'" using w by linarith
  have x'b: "\<bar>x'\<bar> \<le> X + ex" using x by linarith
  have q: "\<bar>x' / y'\<bar> \<le> (X + ex) / (Ylo - ey)"
  proof -
    have "\<bar>x' / y'\<bar> = \<bar>x'\<bar> / y'" using y'pos by simp
    also have "\<dots> \<le> (X + ex) / (Ylo - ey)"
      using x'b y'lo w by (intro frac_le) simp_all
    finally show ?thesis .
  qed
  then have qM: "\<bar>x' / y'\<bar> \<le> (X + ex) / (Ylo - ey) + 1" by simp
  have M1: "1 \<le> (X + ex) / (Ylo - ey) + 1" using nn w by simp
  from js_rnd_bound [OF qM M1 big]
  have r: "js_rnd (x' / y') = Num (fl (x' / y'))"
    "\<bar>fl (x' / y') - x' / y'\<bar> \<le> ((X + ex) / (Ylo - ey) + 1) / 2 ^ 52" by simp_all
  have "x' / y' - x / y = (x' - x) / y' + x * (y - y') / (y * y')"
    using ypos y'pos by (simp add: field_simps)
  then have "\<bar>x' / y' - x / y\<bar> = \<bar>(x' - x) / y' + x * (y - y') / (y * y')\<bar>"
    by (simp only:)
  also have "\<dots> \<le> \<bar>(x' - x) / y'\<bar> + \<bar>x * (y - y') / (y * y')\<bar>"
    by (rule abs_triangle_ineq)
  also have "\<bar>(x' - x) / y'\<bar> \<le> ex / (Ylo - ey)"
  proof -
    have "\<bar>(x' - x) / y'\<bar> = \<bar>x' - x\<bar> / y'" using y'pos by simp
    also have "\<dots> \<le> ex / (Ylo - ey)"
      using x(1) y'lo w by (intro frac_le) simp_all
    finally show ?thesis .
  qed
  also have "\<bar>x * (y - y') / (y * y')\<bar> \<le> X * ey / (Ylo * (Ylo - ey))"
  proof -
    have "\<bar>x * (y - y') / (y * y')\<bar> = \<bar>x\<bar> * \<bar>y - y'\<bar> / (y * y')"
      using ypos y'pos by (simp add: abs_mult)
    also have "\<dots> \<le> X * ey / (Ylo * (Ylo - ey))"
    proof -
      have "\<bar>y - y'\<bar> \<le> ey" using y(1) by linarith
      then have num: "\<bar>x\<bar> * \<bar>y - y'\<bar> \<le> X * ey"
        using x(2) nn by (intro mult_mono) simp_all
      have den: "Ylo * (Ylo - ey) \<le> y * y'"
        using y(2) y'lo ylo w by (intro mult_mono) simp_all
      have "0 < Ylo * (Ylo - ey)" using ylo w by simp
      moreover have "0 \<le> X * ey" using nn by simp
      ultimately show ?thesis using num den by (intro frac_le) simp_all
    qed
    finally show ?thesis .
  qed
  finally have d: "\<bar>x' / y' - x / y\<bar> \<le> ex / (Ylo - ey) + X * ey / (Ylo * (Ylo - ey))" by simp
  have "\<bar>fl (x' / y') - x / y\<bar> \<le> E" using r(2) d E by linarith
  moreover have "\<bar>x / y\<bar> \<le> X / Ylo"
  proof -
    have "\<bar>x / y\<bar> = \<bar>x\<bar> / y" using ypos by simp
    also have "\<dots> \<le> X / Ylo" using x(2) y(2) ylo by (intro frac_le) simp_all
    finally show ?thesis .
  qed
  moreover have "d_div (Num x') (Num y') = Num (fl (x' / y'))"
    using y'pos r(1) by (simp add: d_div_def)
  ultimately show ?thesis by simp
qed

lemma evalD_sound:
  "bnd e = Some (m, r) \<Longrightarrow> \<exists>z. evalD e = Num z \<and> \<bar>z - evalR e\<bar> \<le> r \<and> \<bar>evalR e\<bar> \<le> m"
proof (induction e arbitrary: m r)
  case (Lit c)
  then have c: "\<bar>c\<bar> \<le> 1000" "m = \<bar>c\<bar>" "r = (\<bar>c\<bar> + 1) / 2 ^ 52"
    by (auto split: if_splits)
  from lit_step [OF order_refl c(1)] show ?case by (simp add: c)
next
  case (Var x B)
  then show ?case by (auto split: if_splits)
next
  case (Neg e)
  then obtain z where "evalD e = Num z" "\<bar>z - evalR e\<bar> \<le> r" "\<bar>evalR e\<bar> \<le> m"
    by fastforce
  then have "evalD (Neg e) = Num (- z) \<and> \<bar>- z - evalR (Neg e)\<bar> \<le> r \<and> \<bar>evalR (Neg e)\<bar> \<le> m"
    by simp
  then show ?case by blast
next
  case (Mul a b)
  from Mul.prems obtain ma ea mb eb where ba: "bnd a = Some (ma, ea)" and bb: "bnd b = Some (mb, eb)"
    and big: "(ma + ea) * (mb + eb) + 1 \<le> 2 ^ 1000"
    and m: "m = ma * mb"
    and r: "r = (ma + ea) * eb + mb * ea + ((ma + ea) * (mb + eb) + 1) / 2 ^ 52"
    by (auto split: option.splits if_splits)
  from Mul.IH(1) [OF ba] obtain x where x: "evalD a = Num x" "\<bar>x - evalR a\<bar> \<le> ea" "\<bar>evalR a\<bar> \<le> ma"
    by blast
  from Mul.IH(2) [OF bb] obtain y where y: "evalD b = Num y" "\<bar>y - evalR b\<bar> \<le> eb" "\<bar>evalR b\<bar> \<le> mb"
    by blast
  from mul_step [OF x(2,3) y(2,3) order_refl big] show ?case
    by (simp add: x(1) y(1) m r)
next
  case (Add a b)
  from Add.prems obtain ma ea mb eb where ba: "bnd a = Some (ma, ea)" and bb: "bnd b = Some (mb, eb)"
    and big: "ma + ea + mb + eb + 1 \<le> 2 ^ 1000"
    and m: "m = ma + mb"
    and r: "r = ea + eb + (ma + ea + mb + eb + 1) / 2 ^ 52"
    by (auto split: option.splits if_splits)
  from Add.IH(1) [OF ba] obtain x where x: "evalD a = Num x" "\<bar>x - evalR a\<bar> \<le> ea" "\<bar>evalR a\<bar> \<le> ma"
    by blast
  from Add.IH(2) [OF bb] obtain y where y: "evalD b = Num y" "\<bar>y - evalR b\<bar> \<le> eb" "\<bar>evalR b\<bar> \<le> mb"
    by blast
  from add_step [OF x(2,3) y(2,3) order_refl big] show ?case
    by (simp add: x(1) y(1) m r)
qed

section \<open>Properties of the weather indices\<close>

lemma heatPoly_bnd:
  assumes "\<bar>temp\<bar> \<le> 1000" "\<bar>humidity\<bar> \<le> 100"
  shows "case bnd (heatPoly temp humidity) of None \<Rightarrow> False | Some (m, r) \<Rightarrow> r \<le> 1 / 100000"
  using assms by (simp add: heatPoly_def Let_def)

lemma heatPoly_close:
  assumes "\<bar>temp\<bar> \<le> 1000" "\<bar>humidity\<bar> \<le> 100"
  shows "\<exists>z. evalD (heatPoly temp humidity) = Num z \<and> \<bar>z - evalR (heatPoly temp humidity)\<bar> \<le> 1 / 100000"
proof -
  from heatPoly_bnd [OF assms] obtain m r
    where b: "bnd (heatPoly temp humidity) = Some (m, r)" and r: "r \<le> 1 / 100000"
    by (auto split: option.splits)
  from evalD_sound [OF b] r show ?thesis by fastforce
qed

lemma heatPoly_evalD:
  "\<not> temp < 27 \<Longrightarrow> calculateHeatIndex temp humidity = js_round_num (evalD (heatPoly temp humidity))"
  by (simp add: calculateHeatIndex_def heatPoly_def Let_def)

lemma heatPoly_evalR:
  "evalR (heatPoly temp humidity) =
     - 8.78469475556 + 1.61139411 * temp + 2.33854883889 * humidity
       - 0.14611605 * temp * humidity - 0.012308094 * temp * temp
       - 0.0164248277778 * humidity * humidity + 0.002211732 * temp * temp * humidity
       + 0.00072546 * temp * humidity * humidity
       - 0.000003582 * temp * temp * humidity * humidity"
  by (simp add: heatPoly_def Let_def)

lemma heat_index_close:
  assumes "27 \<le> temp" "temp \<le> 1000" "0 \<le> humidity" "humidity \<le> 100"
  shows "\<exists>z. calculateHeatIndex temp humidity = Num (js_round z) \<and>
             \<bar>z - spec_rothfusz temp humidity\<bar> \<le> 1 / 100000"
proof -
  have "\<bar>temp\<bar> \<le> 1000" "\<bar>humidity\<bar> \<le> 100" using assms by simp_all
  from heatPoly_close [OF this] obtain z
    where z: "evalD (heatPoly temp humidity) = Num z"
      "\<bar>z - evalR (heatPoly temp humidity)\<bar> \<le> 1 / 100000" by blast
  have "calculateHeatIndex temp humidity = Num (js_round z)"
    using assms(1) by (simp add: heatPoly_evalD z(1))
  moreover have "evalR (heatPoly temp humidity) = spec_rothfusz temp humidity"
    by (simp only: heatPoly_evalR spec_rothfusz_def)
  ultimately show ?thesis using z(2) by auto
qed

lemma rothfusz_lower:
  assumes T: "27 \<le> temp" and h: "53 \<le> humidity" "humidity \<le> 100"
  shows "temp + 3 / 5 \<le> spec_rothfusz temp humidity"
proof -
  define s where "s = temp - 27"
  define A where "A = - 0.012308094 + 0.002211732 * humidity - 0.000003582 * (humidity * humidity)"
  define D where "D = - 0.053242966 - 0.026682522 * humidity + 0.000532032 * (humidity * humidity)"
  define G where "G = - 1.24965431156 + 0.00576811689 * humidity + 0.0005513142222 * (humidity * humidity)"
  have s: "0 \<le> s" using T by (simp add: s_def)
  have hh1: "humidity * humidity \<le> 100 * humidity"
    using h by (intro mult_right_mono) simp_all
  have hh2: "53 * humidity \<le> humidity * humidity"
    using h by (intro mult_right_mono) simp_all
  have "0 \<le> - 12308094 + 2211732 * humidity - 3582 * (humidity * humidity)"
    using hh1 h by linarith
  then have A: "0 \<le> A" by (simp add: A_def)
  have "0 \<le> - 53242966 - 26682522 * humidity + 532032 * (humidity * humidity)"
    using hh2 h by linarith
  then have D: "0 \<le> D" by (simp add: D_def)
  have "6000000000000 \<le> - 12496543115600 + 57681168900 * humidity + 5513142222 * (humidity * humidity)"
    using hh2 h by linarith
  then have G: "3 / 5 \<le> G" by (simp add: G_def)
  have "spec_rothfusz temp humidity - temp = A * (s * s) + D * s + G"
    unfolding spec_rothfusz_def A_def D_def G_def s_def by (simp add: field_simps)
  moreover have "0 \<le> A * (s * s)" using A s by simp
  moreover have "0 \<le> D * s" using D s by simp
  ultimately show ?thesis using G by linarith
qed

lemma js_round_gt: "x - 1 / 2 < js_round x"
  unfolding js_round_def by linarith

lemma js_round_le: "js_round x \<le> x + 1 / 2"
  unfolding js_round_def by linarith

text \<open>A product whose exact value has a magnitude of \<open>2 ^ 1025\<close> or more overflows.\<close>

lemma js_rnd_overflow:
  assumes "2 ^ 1025 \<le> \<bar>x\<bar>"
  shows "js_rnd x = (if 0 < x then PosInf else NegInf)"
proof -
  have "(2::real) powi (- 1022) \<le> 2 ^ 1025"
    by (simp add: power_int_minus field_simps)
  with assms have n: "2 powi (- 1022) \<le> \<bar>x\<bar>" by linarith
  have "\<bar>x\<bar> / 2 ^ 53 \<le> \<bar>x\<bar> / 2" by (intro divide_left_mono) simp_all
  with fl_err_normal [OF n] have "\<bar>x\<bar> / 2 \<le> \<bar>fl x\<bar>" by linarith
  moreover from assms have "2 ^ 1024 \<le> \<bar>x\<bar> / 2" by simp
  ultimately have "2 ^ 1024 \<le> \<bar>fl x\<bar>" by linarith
  then show ?thesis by (simp add: js_rnd_def)
qed

lemma evalD_finite:
  assumes "bnd e \<noteq> None"
  shows "\<exists>z. evalD e = Num z \<and> \<bar>z - evalR e\<bar> \<le> snd (the (bnd e))"
proof -
  from assms obtain m r where b: "bnd e = Some (m, r)" by auto
  from evalD_sound [OF b] show ?thesis by (auto simp: b)
qed

lemma heat_index_overflow: "calculateHeatIndex (2 ^ 700) 50 = NaN"
proof -
  let ?t = "2 ^ 700 :: real"
  let ?s = "Add (Add (Add (Neg (Lit 8.78469475556)) (Mul (Lit 1.61139411) (Var ?t ?t)))
      (Mul (Lit 2.33854883889) (Var 50 50)))
      (Mul (Mul (Neg (Lit 0.14611605)) (Var ?t ?t)) (Var 50 50))"
  let ?u = "Mul (Neg (Lit 0.012308094)) (Var ?t ?t)"
  let ?w = "Mul (Mul (Neg (Lit 0.0164248277778)) (Var 50 50)) (Var 50 50)"
  let ?v = "Mul (Lit 0.002211732) (Var ?t ?t)"
  have "bnd ?s \<noteq> None" by simp
  from evalD_finite [OF this] obtain s where "evalD ?s = Num s" by blast
  then have s: "d_add (d_add (d_add (js_neg (lit 8.78469475556)) (d_mul (lit 1.61139411) (Num ?t)))
      (d_mul (lit 2.33854883889) (Num 50)))
      (d_mul (d_mul (js_neg (lit 0.14611605)) (Num ?t)) (Num 50)) = Num s"
    by (simp only: evalD.simps)
  have "bnd ?w \<noteq> None" by simp
  from evalD_finite [OF this] obtain w where "evalD ?w = Num w" by blast
  then have w: "d_mul (d_mul (js_neg (lit 0.0164248277778)) (Num 50)) (Num 50) = Num w"
    by (simp only: evalD.simps)
  have bu: "bnd ?u \<noteq> None" and ru: "snd (the (bnd ?u)) \<le> 2 ^ 660" by simp_all
  from evalD_finite [OF bu] obtain u where u: "evalD ?u = Num u"
      "\<bar>u - evalR ?u\<bar> \<le> snd (the (bnd ?u))" by blast
  from u(2) ru have "\<bar>u - evalR ?u\<bar> \<le> 2 ^ 660" by (rule order_trans)
  then have "u \<le> - (2 ^ 692)" by simp
  then have "u * ?t \<le> - (2 ^ 692) * ?t" by (intro mult_right_mono) simp_all
  then have "u * ?t \<le> - (2 ^ 1025)" by simp
  moreover have p: "(0::real) < 2 ^ 1025" by simp
  ultimately have "2 ^ 1025 \<le> \<bar>u * ?t\<bar>" "\<not> 0 < u * ?t" by linarith+
  with js_rnd_overflow [of "u * ?t"] have "js_rnd (u * ?t) = NegInf" by simp
  then have ou: "d_mul (Num u) (Num ?t) = NegInf" by (simp only: d_mul_def js_mul.simps js_rnd_num.simps)
  from u(1) have eu: "d_mul (js_neg (lit 0.012308094)) (Num ?t) = Num u"
    by (simp only: evalD.simps)
  have bv: "bnd ?v \<noteq> None" and rv: "snd (the (bnd ?v)) \<le> 2 ^ 660" by simp_all
  from evalD_finite [OF bv] obtain v where v: "evalD ?v = Num v"
      "\<bar>v - evalR ?v\<bar> \<le> snd (the (bnd ?v))" by blast
  from v(2) rv have "\<bar>v - evalR ?v\<bar> \<le> 2 ^ 660" by (rule order_trans)
  then have "2 ^ 690 \<le> v" by simp
  then have "2 ^ 690 * ?t \<le> v * ?t" by (intro mult_right_mono) simp_all
  then have "2 ^ 1025 \<le> v * ?t" by simp
  with p have "2 ^ 1025 \<le> \<bar>v * ?t\<bar>" "0 < v * ?t" by linarith+
  with js_rnd_overflow [of "v * ?t"] have "js_rnd (v * ?t) = PosInf" by simp
  then have ov: "d_mul (Num v) (Num ?t) = PosInf" by (simp only: d_mul_def js_mul.simps js_rnd_num.simps)
  from v(1) have ev: "d_mul (lit 0.002211732) (Num ?t) = Num v"
    by (simp only: evalD.simps)
  have inf: "d_add (Num s) NegInf = NegInf" "d_add NegInf (Num w) = NegInf"
    "d_mul PosInf (Num 50) = PosInf" "d_add NegInf PosInf = NaN" "d_add NaN x = NaN" for x
    by (simp_all add: d_add_def d_mul_def)
  have big: "((2::real) ^ 700 < 27) = False" by simp
  show ?thesis
    by (simp only: calculateHeatIndex_def Let_def big if_False s w eu ou ev ov inf js_round_num.simps)
qed

text \<open>Next to a tie the roundings of the operations decide. At a temperature of 27 and
  the humidity \<open>51.34589271415031\<close> the sum computed in double precision is
  \<open>27.500000000000014\<close>, and the heat index is 28.\<close>

lemma heat_index_tie:
  "calculateHeatIndex 27 (3613145988975825 / 70368744177664) = Num 28"
proof -
  have f1: "fl 8.78469475556 = 2472671751731473 / 281474976710656"
    by (subst fl_eval [where e = 3]) (simp_all add: rne_def)
  have s1: "lit 8.78469475556 = Num (2472671751731473 / 281474976710656)"
    unfolding lit_def js_rnd_def f1 by simp
  have f2: "fl 1.61139411 = 1814268478335753 / 1125899906842624"
    by (subst fl_eval [where e = 0]) (simp_all add: rne_def)
  have s2: "lit 1.61139411 = Num (1814268478335753 / 1125899906842624)"
    unfolding lit_def js_rnd_def f2 by simp
  have f3: "fl 2.33854883889 = 5265943839706355 / 2251799813685248"
    by (subst fl_eval [where e = 1]) (simp_all add: rne_def)
  have s3: "lit 2.33854883889 = Num (5265943839706355 / 2251799813685248)"
    unfolding lit_def js_rnd_def f3 by simp
  have f4: "fl 0.14611605 = 2632192753331395 / 18014398509481984"
    by (subst fl_eval [where e = "- 3"]) (simp_all add: rne_def)
  have s4: "lit 0.14611605 = Num (2632192753331395 / 18014398509481984)"
    unfolding lit_def js_rnd_def f4 by simp
  have f5: "fl 0.012308094 = 7095133126661253 / 576460752303423488"
    by (subst fl_eval [where e = "- 7"]) (simp_all add: rne_def)
  have s5: "lit 0.012308094 = Num (7095133126661253 / 576460752303423488)"
    unfolding lit_def js_rnd_def f5 by simp
  have f6: "fl 0.0164248277778 = 2367067144311189 / 144115188075855872"
    by (subst fl_eval [where e = "- 6"]) (simp_all add: rne_def)
  have s6: "lit 0.0164248277778 = Num (2367067144311189 / 144115188075855872)"
    unfolding lit_def js_rnd_def f6 by simp
  have f7: "fl 0.002211732 = 2549953385227111 / 1152921504606846976"
    by (subst fl_eval [where e = "- 9"]) (simp_all add: rne_def)
  have s7: "lit 0.002211732 = Num (2549953385227111 / 1152921504606846976)"
    unfolding lit_def js_rnd_def f7 by simp
  have f8: "fl 0.00072546 = 3345593738928333 / 4611686018427387904"
    by (subst fl_eval [where e = "- 11"]) (simp_all add: rne_def)
  have s8: "lit 0.00072546 = Num (3345593738928333 / 4611686018427387904)"
    unfolding lit_def js_rnd_def f8 by simp
  have f9: "fl 0.000003582 = 8457758370819535 / 2361183241434822606848"
    by (subst fl_eval [where e = "- 19"]) (simp_all add: rne_def)
  have s9: "lit 0.000003582 = Num (8457758370819535 / 2361183241434822606848)"
    unfolding lit_def js_rnd_def f9 by simp
  have f10: "fl ((1814268478335753 / 1125899906842624) * 27) = 3061578057191583 / 70368744177664"
    by (subst fl_eval [where e = 5]) (simp_all add: rne_def)
  have s10: "d_mul (Num (1814268478335753 / 1125899906842624)) (Num 27) = Num (3061578057191583 / 70368744177664)"
    unfolding d_mul_def js_mul.simps js_rnd_num.simps js_rnd_def f10 by simp
  have f11: "fl (- (2472671751731473 / 281474976710656) + (3061578057191583 / 70368744177664)) = 2443410119258715 / 70368744177664"
    by (subst fl_eval [where e = 5]) (simp_all add: rne_def)
  have s11: "d_add (Num (- (2472671751731473 / 281474976710656))) (Num (3061578057191583 / 70368744177664)) = Num (2443410119258715 / 70368744177664)"
    unfolding d_add_def js_add.simps js_rnd_num.simps js_rnd_def f11 by simp
  have f12: "fl ((5265943839706355 / 2251799813685248) * (3613145988975825 / 70368744177664)) = 2112379589314869 / 17592186044416"
    by (subst fl_eval [where e = 6]) (simp_all add: rne_def)
  have s12: "d_mul (Num (5265943839706355 / 2251799813685248)) (Num (3613145988975825 / 70368744177664)) = Num (2112379589314869 / 17592186044416)"
    unfolding d_mul_def js_mul.simps js_rnd_num.simps js_rnd_def f12 by simp
  have f13: "fl (2443410119258715 / 70368744177664 + (2112379589314869 / 17592186044416)) = 680808029782387 / 4398046511104"
    by (subst fl_eval [where e = 7]) (simp_all add: rne_def)
  have s13: "d_add (Num (2443410119258715 / 70368744177664)) (Num (2112379589314869 / 17592186044416)) = Num (680808029782387 / 4398046511104)"
    unfolding d_add_def js_add.simps js_rnd_num.simps js_rnd_def f13 by simp
  have f14: "fl (- (2632192753331395 / 18014398509481984) * 27) = - (4441825271246729 / 1125899906842624)"
    by (subst fl_eval [where e = 1]) (simp_all add: rne_def)
  have s14: "d_mul (Num (- (2632192753331395 / 18014398509481984))) (Num 27) = Num (- (4441825271246729 / 1125899906842624))"
    unfolding d_mul_def js_mul.simps js_rnd_num.simps js_rnd_def f14 by simp
  have f15: "fl (- (4441825271246729 / 1125899906842624) * (3613145988975825 / 70368744177664)) = - (3563585684881815 / 17592186044416)"
    by (subst fl_eval [where e = 7]) (simp_all add: rne_def)
  have s15: "d_mul (Num (- (4441825271246729 / 1125899906842624))) (Num (3613145988975825 / 70368744177664)) = Num (- (3563585684881815 / 17592186044416))"
    unfolding d_mul_def js_mul.simps js_rnd_num.simps js_rnd_def f15 by simp
  have f16: "fl (680808029782387 / 4398046511104 + (- (3563585684881815 / 17592186044416))) = - (840353565752267 / 17592186044416)"
    by (subst fl_eval [where e = 5]) (simp_all add: rne_def)
  have s16: "d_add (Num (680808029782387 / 4398046511104)) (Num (- (3563585684881815 / 17592186044416))) = Num (- (840353565752267 / 17592186044416))"
    unfolding d_add_def js_add.simps js_rnd_num.simps js_rnd_def f16 by simp
  have f17: "fl (- (7095133126661253 / 576460752303423488) * 27) = - (374157410976277 / 1125899906842624)"
    by (subst fl_eval [where e = "- 2"]) (simp_all add: rne_def)
  have s17: "d_mul (Num (- (7095133126661253 / 576460752303423488))) (Num 27) = Num (- (374157410976277 / 1125899906842624))"
    unfolding d_mul_def js_mul.simps js_rnd_num.simps js_rnd_def f17 by simp
  have f18: "fl (- (374157410976277 / 1125899906842624) * 27) = - (1262781262044935 / 140737488355328)"
    by (subst fl_eval [where e = 3]) (simp_all add: rne_def)
  have s18: "d_mul (Num (- (374157410976277 / 1125899906842624))) (Num 27) = Num (- (1262781262044935 / 140737488355328))"
    unfolding d_mul_def js_mul.simps js_rnd_num.simps js_rnd_def f18 by simp
  have f19: "fl (- (840353565752267 / 17592186044416) + (- (1262781262044935 / 140737488355328))) = - (7985609788063071 / 140737488355328)"
    by (subst fl_eval [where e = 5]) (simp_all add: rne_def)
  have s19: "d_add (Num (- (840353565752267 / 17592186044416))) (Num (- (1262781262044935 / 140737488355328))) = Num (- (7985609788063071 / 140737488355328))"
    unfolding d_add_def js_add.simps js_rnd_num.simps js_rnd_def f19 by simp
  have f20: "fl (- (2367067144311189 / 144115188075855872) * (3613145988975825 / 70368744177664)) = - (7596198477437029 / 9007199254740992)"
    by (subst fl_eval [where e = "- 1"]) (simp_all add: rne_def)
  have s20: "d_mul (Num (- (2367067144311189 / 144115188075855872))) (Num (3613145988975825 / 70368744177664)) = Num (- (7596198477437029 / 9007199254740992))"
    unfolding d_mul_def js_mul.simps js_rnd_num.simps js_rnd_def f20 by simp
  have f21: "fl (- (7596198477437029 / 9007199254740992) * (3613145988975825 / 70368744177664)) = - (6094274875904275 / 140737488355328)"
    by (subst fl_eval [where e = 5]) (simp_all add: rne_def)
  have s21: "d_mul (Num (- (7596198477437029 / 9007199254740992))) (Num (3613145988975825 / 70368744177664)) = Num (- (6094274875904275 / 140737488355328))"
    unfolding d_mul_def js_mul.simps js_rnd_num.simps js_rnd_def f21 by simp
  have f22: "fl (- (7985609788063071 / 140737488355328) + (- (6094274875904275 / 140737488355328))) = - (7039942331983673 / 70368744177664)"
    by (subst fl_eval [where e = 6]) (simp_all add: rne_def)
  have s22: "d_add (Num (- (7985609788063071 / 140737488355328))) (Num (- (6094274875904275 / 140737488355328))) = Num (- (7039942331983673 / 70368744177664))"
    unfolding d_add_def js_add.simps js_rnd_num.simps js_rnd_def f22 by simp
  have f23: "fl ((2549953385227111 / 1152921504606846976) * 27) = 2151523168785375 / 36028797018963968"
    by (subst fl_eval [where e = "- 5"]) (simp_all add: rne_def)
  have s23: "d_mul (Num (2549953385227111 / 1152921504606846976)) (Num 27) = Num (2151523168785375 / 36028797018963968)"
    unfolding d_mul_def js_mul.simps js_rnd_num.simps js_rnd_def f23 by simp
  have f24: "fl ((2151523168785375 / 36028797018963968) * 27) = 7261390694650641 / 4503599627370496"
    by (subst fl_eval [where e = 0]) (simp_all add: rne_def)
  have s24: "d_mul (Num (2151523168785375 / 36028797018963968)) (Num 27) = Num (7261390694650641 / 4503599627370496)"
    unfolding d_mul_def js_mul.simps js_rnd_num.simps js_rnd_def f24 by simp
  have f25: "fl ((7261390694650641 / 4503599627370496) * (3613145988975825 / 70368744177664)) = 5825665430672831 / 70368744177664"
    by (subst fl_eval [where e = 6]) (simp_all add: rne_def)
  have s25: "d_mul (Num (7261390694650641 / 4503599627370496)) (Num (3613145988975825 / 70368744177664)) = Num (5825665430672831 / 70368744177664)"
    unfolding d_mul_def js_mul.simps js_rnd_num.simps js_rnd_def f25 by simp
  have f26: "fl (- (7039942331983673 / 70368744177664) + (5825665430672831 / 70368744177664)) = - (607138450655421 / 35184372088832)"
    by (subst fl_eval [where e = 4]) (simp_all add: rne_def)
  have s26: "d_add (Num (- (7039942331983673 / 70368744177664))) (Num (5825665430672831 / 70368744177664)) = Num (- (607138450655421 / 35184372088832))"
    unfolding d_add_def js_add.simps js_rnd_num.simps js_rnd_def f26 by simp
  have f27: "fl ((3345593738928333 / 4611686018427387904) * 27) = 2822844717220781 / 144115188075855872"
    by (subst fl_eval [where e = "- 6"]) (simp_all add: rne_def)
  have s27: "d_mul (Num (3345593738928333 / 4611686018427387904)) (Num 27) = Num (2822844717220781 / 144115188075855872)"
    unfolding d_mul_def js_mul.simps js_rnd_num.simps js_rnd_def f27 by simp
  have f28: "fl ((2822844717220781 / 144115188075855872) * (3613145988975825 / 70368744177664)) = 4529421312472631 / 4503599627370496"
    by (subst fl_eval [where e = 0]) (simp_all add: rne_def)
  have s28: "d_mul (Num (2822844717220781 / 144115188075855872)) (Num (3613145988975825 / 70368744177664)) = Num (4529421312472631 / 4503599627370496)"
    unfolding d_mul_def js_mul.simps js_rnd_num.simps js_rnd_def f28 by simp
  have f29: "fl ((4529421312472631 / 4503599627370496) * (3613145988975825 / 70368744177664)) = 7267724398981425 / 140737488355328"
    by (subst fl_eval [where e = 5]) (simp_all add: rne_def)
  have s29: "d_mul (Num (4529421312472631 / 4503599627370496)) (Num (3613145988975825 / 70368744177664)) = Num (7267724398981425 / 140737488355328)"
    unfolding d_mul_def js_mul.simps js_rnd_num.simps js_rnd_def f29 by simp
  have f30: "fl (- (607138450655421 / 35184372088832) + (7267724398981425 / 140737488355328)) = 4839170596359741 / 140737488355328"
    by (subst fl_eval [where e = 5]) (simp_all add: rne_def)
  have s30: "d_add (Num (- (607138450655421 / 35184372088832))) (Num (7267724398981425 / 140737488355328)) = Num (4839170596359741 / 140737488355328)"
    unfolding d_add_def js_add.simps js_rnd_num.simps js_rnd_def f30 by simp
  have f31: "fl (- (8457758370819535 / 2361183241434822606848) * 27) = - (7136233625378983 / 73786976294838206464)"
    by (subst fl_eval [where e = "- 14"]) (simp_all add: rne_def)
  have s31: "d_mul (Num (- (8457758370819535 / 2361183241434822606848))) (Num 27) = Num (- (7136233625378983 / 73786976294838206464))"
    unfolding d_mul_def js_mul.simps js_rnd_num.simps js_rnd_def f31 by simp
  have f32: "fl (- (7136233625378983 / 73786976294838206464) * 27) = - (6021197121413517 / 2305843009213693952)"
    by (subst fl_eval [where e = "- 9"]) (simp_all add: rne_def)
  have s32: "d_mul (Num (- (7136233625378983 / 73786976294838206464))) (Num 27) = Num (- (6021197121413517 / 2305843009213693952))"
    unfolding d_mul_def js_mul.simps js_rnd_num.simps js_rnd_def f32 by simp
  have f33: "fl (- (6021197121413517 / 2305843009213693952) * (3613145988975825 / 70368744177664)) = - (4830683459482017 / 36028797018963968)"
    by (subst fl_eval [where e = "- 3"]) (simp_all add: rne_def)
  have s33: "d_mul (Num (- (6021197121413517 / 2305843009213693952))) (Num (3613145988975825 / 70368744177664)) = Num (- (4830683459482017 / 36028797018963968))"
    unfolding d_mul_def js_mul.simps js_rnd_num.simps js_rnd_def f33 by simp
  have f34: "fl (- (4830683459482017 / 36028797018963968) * (3613145988975825 / 70368744177664)) = - (7751117332705753 / 1125899906842624)"
    by (subst fl_eval [where e = 2]) (simp_all add: rne_def)
  have s34: "d_mul (Num (- (4830683459482017 / 36028797018963968))) (Num (3613145988975825 / 70368744177664)) = Num (- (7751117332705753 / 1125899906842624))"
    unfolding d_mul_def js_mul.simps js_rnd_num.simps js_rnd_def f34 by simp
  have f35: "fl (4839170596359741 / 140737488355328 + (- (7751117332705753 / 1125899906842624))) = 1935140464885761 / 70368744177664"
    by (subst fl_eval [where e = 4]) (simp_all add: rne_def)
  have s35: "d_add (Num (4839170596359741 / 140737488355328)) (Num (- (7751117332705753 / 1125899906842624))) = Num (1935140464885761 / 70368744177664)"
    unfolding d_add_def js_add.simps js_rnd_num.simps js_rnd_def f35 by simp
  have lt: "((27::real) < 27) = False" by simp
  have r: "js_round (1935140464885761 / 70368744177664) = 28" by (simp add: js_round_def)
  show ?thesis
    by (simp only: calculateHeatIndex_def Let_def lt if_False s1 s2 s3 s4 s5 s6 s7 s8 s9 s10 s11 s12 s13 s14 s15 s16 s17 s18 s19 s20 s21 s22 s23 s24 s25 s26 s27 s28 s29 s30 s31 s32 s33 s34 s35 js_neg.simps js_round_num.simps r)
qed

text \<open>
  \<^bold>\<open>C3\<close>, as stated, fails. At a temperature of 27 and a humidity of 0 the regression
  polynomial is about 25.75, and the heat index is 26, below the temperature. At a
  temperature of \<open>2 ^ 700\<close> the products with the square of the temperature overflow,
  and the heat index is NaN.
\<close>

theorem heat_index_counterexample:
  "(27::real) \<le> 27 \<and> (0::real) \<le> 0 \<and> (0::real) \<le> 100 \<and>
   calculateHeatIndex 27 0 = Num 26 \<and> \<not> js_le (Num 27) (calculateHeatIndex 27 0) \<and>
   (27::real) \<le> 2 ^ 700 \<and> (0::real) \<le> 50 \<and> (50::real) \<le> 100 \<and>
   calculateHeatIndex (2 ^ 700) 50 = NaN"
proof -
  from heat_index_close [of 27 0] obtain z where
    z: "calculateHeatIndex 27 0 = Num (js_round z)" "\<bar>z - spec_rothfusz 27 0\<bar> \<le> 1 / 100000"
    by auto
  have p: "spec_rothfusz 27 0 = 25.75034568844" by (simp add: spec_rothfusz_def)
  from z(2) have "z \<le> 25.75034568844 + 1 / 100000" "25.75034568844 \<le> z + 1 / 100000"
    unfolding p by linarith+
  then have "25 + 1 / 2 \<le> z" "z < 26 + 1 / 2" by simp_all
  then have "\<lfloor>z + 1 / 2\<rfloor> = 26" by linarith
  then have "js_round z = 26" by (simp add: js_round_def)
  with z(1) show ?thesis using heat_index_overflow by simp
qed

text \<open>
  \<^bold>\<open>C3\<close>, amended. Below a temperature of 27 the heat index is the temperature itself.
  For a temperature from 27 to 1000 and a humidity from 0 to 100 it is a whole number
  within \<open>1 / 2 + 1 / 100000\<close> of the Rothfusz regression polynomial: the polynomial as
  computed in double precision, rounded to the nearest integer. For a humidity of 53 or
  more that number is greater than the temperature.
\<close>

theorem heat_index_spec:
  "(temp < 27 \<longrightarrow> calculateHeatIndex temp humidity = Num temp) \<and>
   (27 \<le> temp \<and> temp \<le> 1000 \<and> 0 \<le> humidity \<and> humidity \<le> 100 \<longrightarrow>
      (\<exists>k. calculateHeatIndex temp humidity = Num (of_int k) \<and>
           \<bar>of_int k - spec_rothfusz temp humidity\<bar> \<le> 1 / 2 + 1 / 100000 \<and>
           (53 \<le> humidity \<longrightarrow> temp < of_int k)))"
proof (intro conjI impI)
  assume "temp < 27"
  then show "calculateHeatIndex temp humidity = Num temp"
    by (simp add: calculateHeatIndex_def)
next
  assume a: "27 \<le> temp \<and> temp \<le> 1000 \<and> 0 \<le> humidity \<and> humidity \<le> 100"
  then obtain z where z: "calculateHeatIndex temp humidity = Num (js_round z)"
      "\<bar>z - spec_rothfusz temp humidity\<bar> \<le> 1 / 100000"
    using heat_index_close [of temp humidity] by blast
  define k where "k = \<lfloor>z + 1 / 2\<rfloor>"
  have k: "js_round z = of_int k" by (simp add: js_round_def k_def)
  from z(2) have zb: "z \<le> spec_rothfusz temp humidity + 1 / 100000"
      "spec_rothfusz temp humidity \<le> z + 1 / 100000"
    by linarith+
  have "of_int k - spec_rothfusz temp humidity \<le> 1 / 2 + 1 / 100000"
    "spec_rothfusz temp humidity - of_int k \<le> 1 / 2 + 1 / 100000"
    using js_round_gt [of z] js_round_le [of z] zb unfolding k by linarith+
  then have near: "\<bar>of_int k - spec_rothfusz temp humidity\<bar> \<le> 1 / 2 + 1 / 100000"
    by linarith
  have above: "temp < of_int k" if "53 \<le> humidity"
  proof -
    from rothfusz_lower [of temp humidity] a that
    have "temp + 3 / 5 \<le> spec_rothfusz temp humidity" by simp
    moreover from z(2) have "spec_rothfusz temp humidity \<le> z + 1 / 100000"
      by linarith
    ultimately show ?thesis
      using js_round_gt [of z] unfolding k by linarith
  qed
  from z(1) near above show "\<exists>k. calculateHeatIndex temp humidity = Num (of_int k) \<and>
           \<bar>of_int k - spec_rothfusz temp humidity\<bar> \<le> 1 / 2 + 1 / 100000 \<and>
           (53 \<le> humidity \<longrightarrow> temp < of_int k)"
    unfolding k by blast
qed

theorem heat_index_spec_witness:
  "calculateHeatIndex 20 50 = Num 20 \<and> calculateHeatIndex 30 60 = Num 33 \<and>
   calculateHeatIndex 30 20 = Num 28"
proof -
  have 1: "calculateHeatIndex 20 50 = Num 20"
    using heat_index_spec [of 20 50] by simp
  from heat_index_spec [of 30 60] obtain k :: int where
    k: "calculateHeatIndex 30 60 = Num (of_int k)"
      "\<bar>of_int k - spec_rothfusz 30 60\<bar> \<le> 1 / 2 + 1 / 100000" by auto
  have "32.6 < spec_rothfusz 30 60" "spec_rothfusz 30 60 < 33.4"
    by (simp_all add: spec_rothfusz_def)
  moreover from k(2) have "of_int k \<le> spec_rothfusz 30 60 + (1 / 2 + 1 / 100000)"
    "spec_rothfusz 30 60 \<le> of_int k + (1 / 2 + 1 / 100000)"
    by linarith+
  ultimately have "32 < (of_int k :: real)" "(of_int k :: real) < 34" by linarith+
  then have "k = 33" by linarith
  with k(1) have 2: "calculateHeatIndex 30 60 = Num 33" by simp
  from heat_index_spec [of 30 20] obtain j :: int where
    j: "calculateHeatIndex 30 20 = Num (of_int j)"
      "\<bar>of_int j - spec_rothfusz 30 20\<bar> \<le> 1 / 2 + 1 / 100000" by auto
  have "27.6 < spec_rothfusz 30 20" "spec_rothfusz 30 20 < 28.4" by (simp_all add: spec_rothfusz_def)
  moreover from j(2) have "of_int j \<le> spec_rothfusz 30 20 + (1 / 2 + 1 / 100000)"
    "spec_rothfusz 30 20 \<le> of_int j + (1 / 2 + 1 / 100000)"
    by linarith+
  ultimately have "27 < (of_int j :: real)" "(of_int j :: real) < 29" by linarith+
  then have "j = 28" by linarith
  with j(1) have 3: "calculateHeatIndex 30 20 = Num 28" by simp
  from 1 2 3 show ?thesis by simp
qed

subsection \<open>Dew point\<close>




















section \<open>Properties of the trend classification\<close>









section \<open>Properties of the farm health score\<close>

lemma healthLoop_append: "healthLoop (xs @ ys) acc = healthLoop ys (healthLoop xs acc)"
proof (induction xs arbitrary: acc)
  case Nil
  show ?case by simp
next
  case (Cons e xs)
  obtain st d where e: "e = (st, d)" by (cases e)
  obtain score k where acc: "acc = (score, k)" by (cases acc)
  show ?case
  proof (cases d)
    case None
    then show ?thesis by (simp add: e acc Cons.IH)
  next
    case (Some data)
    then show ?thesis
      by (cases "js_get optimalRanges st") (auto simp: e acc Cons.IH Let_def)
  qed
qed

text \<open>A reading whose value is zero never enters the score: the farm scores as it does
  without that sensor.\<close>

lemma zero_reading_ignored:
  assumes "sd_value d = 0"
  shows "calculateFarmHealthScore (xs @ (st, Some d) # ys) = calculateFarmHealthScore (xs @ ys)"
proof -
  obtain score k where acc: "healthLoop xs (Num 100, 0) = (score, k)"
    by (cases "healthLoop xs (Num 100, 0)")
  have "healthLoop (xs @ (st, Some d) # ys) (Num 100, 0) = healthLoop (xs @ ys) (Num 100, 0)"
    using assms by (simp add: healthLoop_append acc)
  then show ?thesis by (simp add: calculateFarmHealthScore_def)
qed

text \<open>Six sensors at the midpoints of their ranges score 100, and so do the five that
  remain when the soil moisture sensor has no reading.\<close>

lemma health_score_midpoints:
  "calculateFarmHealthScore sixAtMidpoint = Num 100 \<and>
   calculateFarmHealthScore ((''soil_moisture'', None) # tl sixAtMidpoint) = Num 100"
  by (simp add: calculateFarmHealthScore_def sixAtMidpoint_def js_get_def optimalRanges_def
      sampleReading_def js_round_def)

text \<open>A soil moisture of 1, far below the optimal range of 40 to 60, costs the full 20
  points.\<close>

lemma health_score_low_moisture:
  "calculateFarmHealthScore (drySoilFarm 1) = Num 80"
proof -
  have mid: "d_div (d_add (Num 40) (Num 60)) (Num 2) = Num 50"
    by (simp add: d_add_def d_div_def js_rnd_def fl_numeral)
  have half: "d_div (d_sub (Num 60) (Num 40)) (Num 2) = Num 10"
    by (simp add: d_sub_def js_sub_def d_div_def js_rnd_def fl_numeral)
  have dist: "js_abs (d_sub (Num 1) (Num 50)) = Num 49"
    by (simp add: d_sub_def js_sub_def js_rnd_def fl_neg_numeral)
  have x: "\<bar>49 - (49::real)\<bar> \<le> 0" "\<bar>49::real\<bar> \<le> 49" "\<bar>10 - (10::real)\<bar> \<le> 0" "(10::real) \<le> 10"
    by simp_all
  from div_step [OF x, where E = "1 / 10 ^ 9"] obtain q
    where q: "d_div (Num 49) (Num 10) = Num q" "\<bar>q - 49 / 10\<bar> \<le> 1 / 10 ^ 9" by auto
  have y: "\<bar>49 / 10 :: real\<bar> \<le> 5" "\<bar>10::real\<bar> \<le> 10" by simp_all
  from mul_step [OF q(2) y(1) x(3) y(2), where E = "1 / 10 ^ 7"] obtain p
    where p: "d_mul (Num q) (Num 10) = Num p" "\<bar>p - 49 / 10 * 10\<bar> \<le> 1 / 10 ^ 7" by auto
  from p(2) have "- (p - 49 / 10 * 10) \<le> 1 / 10 ^ 7" by (rule abs_le_D2)
  then have "20 \<le> p" by simp
  then have cap: "min 20 p = 20" by simp
  have rest: "d_sub (Num 100) (Num 20) = Num 80"
    by (simp add: d_sub_def js_sub_def js_rnd_def fl_numeral)
  have "healthLoop (drySoilFarm 1) (Num 100, 0) = (Num 80, 6)"
    by (simp add: drySoilFarm_def sixAtMidpoint_def js_get_def optimalRanges_def
        sampleReading_def Let_def mid half dist q(1) p(1) cap rest)
  then show ?thesis by (simp add: calculateFarmHealthScore_def js_round_def)
qed

text \<open>Next to a tie the roundings of the operations decide. For a soil moisture of
  \<open>60.50000000000001\<close> the score computed in double precision is \<open>89.5\<close> before
  \<^verbatim>\<open>Math.round\<close>, and the farm scores 90.\<close>

lemma health_score_tie:
  "calculateFarmHealthScore
     [(''soil_moisture'', Some (sampleReading ''soil_moisture'' (8514618045497345 / 140737488355328) None))] = Num 90"
proof -
  have f1: "fl (40 + 60) = 100"
    by (subst fl_eval [where e = 6]) (simp_all add: rne_def)
  have s1: "d_add (Num 40) (Num 60) = Num 100"
    unfolding d_add_def js_add.simps js_rnd_num.simps js_rnd_def f1 by simp
  have f2: "fl (100 / 2) = 50"
    by (subst fl_eval [where e = 5]) (simp_all add: rne_def)
  have s2: "d_div (Num 100) (Num 2) = Num 50"
  proof -
    have "js_div (Num 100) (Num 2) = Num (100 / 2)" by simp
    then show ?thesis
      unfolding d_div_def by (simp only: js_rnd_num.simps js_rnd_def f2) simp
  qed
  have f3: "fl (8514618045497345 / 140737488355328 + - 50) = 1477743627730945 / 140737488355328"
    by (subst fl_eval [where e = 3]) (simp_all add: rne_def)
  have s3: "d_sub (Num (8514618045497345 / 140737488355328)) (Num 50) = Num (1477743627730945 / 140737488355328)"
    unfolding d_sub_def js_sub_def js_neg.simps js_add.simps js_rnd_num.simps js_rnd_def f3 by simp
  have f4: "fl (60 + - 40) = 20"
    by (subst fl_eval [where e = 4]) (simp_all add: rne_def)
  have s4: "d_sub (Num 60) (Num 40) = Num 20"
    unfolding d_sub_def js_sub_def js_neg.simps js_add.simps js_rnd_num.simps js_rnd_def f4 by simp
  have f5: "fl (20 / 2) = 10"
    by (subst fl_eval [where e = 3]) (simp_all add: rne_def)
  have s5: "d_div (Num 20) (Num 2) = Num 10"
  proof -
    have "js_div (Num 20) (Num 2) = Num (20 / 2)" by simp
    then show ?thesis
      unfolding d_div_def by (simp only: js_rnd_num.simps js_rnd_def f5) simp
  qed
  have f6: "fl ((1477743627730945 / 140737488355328) / 10) = 295548725546189 / 281474976710656"
    by (subst fl_eval [where e = 0]) (simp_all add: rne_def)
  have s6: "d_div (Num (1477743627730945 / 140737488355328)) (Num 10) = Num (295548725546189 / 281474976710656)"
  proof -
    have "js_div (Num (1477743627730945 / 140737488355328)) (Num 10) = Num ((1477743627730945 / 140737488355328) / 10)" by simp
    then show ?thesis
      unfolding d_div_def by (simp only: js_rnd_num.simps js_rnd_def f6) simp
  qed
  have f7: "fl ((295548725546189 / 281474976710656) * 10) = 1477743627730945 / 140737488355328"
    by (subst fl_eval [where e = 3]) (simp_all add: rne_def)
  have s7: "d_mul (Num (295548725546189 / 281474976710656)) (Num 10) = Num (1477743627730945 / 140737488355328)"
    unfolding d_mul_def js_mul.simps js_rnd_num.simps js_rnd_def f7 by simp
  have f8: "fl (100 + - (1477743627730945 / 140737488355328)) = 179 / 2"
    by (subst fl_eval [where e = 6]) (simp_all add: rne_def)
  have s8: "d_sub (Num 100) (Num (1477743627730945 / 140737488355328)) = Num (179 / 2)"
    unfolding d_sub_def js_sub_def js_neg.simps js_add.simps js_rnd_num.simps js_rnd_def f8 by simp
  show ?thesis
    by (simp add: calculateFarmHealthScore_def js_get_def optimalRanges_def sampleReading_def
        Let_def js_round_def s1 s2 s3 s4 s5 s6 s7 s8)
qed

lemma spec_score_examples:
  "spec_healthScore nightFarm = 80 \<and> spec_healthScore (drySoilFarm 0) = 80 \<and>
   spec_healthScore (drySoilFarm 1) = 80 \<and> spec_healthScore sixAtMidpoint = 100"
  by (simp add: spec_healthScore_def spec_deduction_def nightFarm_def drySoilFarm_def
      sixAtMidpoint_def optimalRanges_def sampleReading_def)

text \<open>
  \<^bold>\<open>C6.\<close> The score the source computes departs from the claim at a reading of zero. A
  farm whose only sensor reads 0 lux has a reading, and by the claim a score of 100 less
  the deduction for a value below the optimal range, 80; the source counts no valid
  sensor and returns 0. With all six sensors present and a soil moisture of 0 the claim
  gives 80 again, the score the source gives for a soil moisture of 1; for 0 the source
  returns 100, the score of a farm in perfect condition.
\<close>

theorem farm_health_zero_reading:
  "calculateFarmHealthScore nightFarm = Num 0 \<and> spec_healthScore nightFarm = 80 \<and>
   calculateFarmHealthScore (drySoilFarm 0) = Num 100 \<and> spec_healthScore (drySoilFarm 0) = 80 \<and>
   calculateFarmHealthScore (drySoilFarm 1) = Num 80 \<and> spec_healthScore (drySoilFarm 1) = 80"
proof -
  have 1: "calculateFarmHealthScore nightFarm = Num 0"
    by (simp add: calculateFarmHealthScore_def nightFarm_def sampleReading_def)
  have 2: "calculateFarmHealthScore (drySoilFarm 0) = Num 100"
    by (simp add: calculateFarmHealthScore_def drySoilFarm_def sixAtMidpoint_def js_get_def
        optimalRanges_def sampleReading_def js_round_def)
  from 1 2 health_score_low_moisture spec_score_examples show ?thesis by simp
qed

section \<open>Properties of the scheduled-notification filter\<close>

lemma parse_examples:
  "parseIntDec (splitHead ''22:00'') = Some 22"
  "parseIntDec (splitHead ''06:00'') = Some 6"
  "parseIntDec (splitHead ''13:00'') = Some 13"
  "parseIntDec (splitHead ''15:00'') = Some 15"
  by (simp_all add: parseIntDec_def parseDigits_def splitHead_def isDigit_def digitVal_def)

text \<open>What the source computes: a notification is sent when the hour is neither at or
  after the start hour nor at or before the end hour, and the frequency allows it.\<close>

lemma shouldSend_code:
  "shouldSendScheduledNotification parseInt c sub type \<longleftrightarrow>
     \<not> ge_num (nowHours c) (parseInt (splitHead (qh_start (quietHours (sub_preferences sub))))) \<and>
     \<not> le_num (nowHours c) (parseInt (splitHead (qh_end (quietHours (sub_preferences sub))))) \<and>
     frequency (sub_preferences sub) \<noteq> ''never'' \<and>
     (frequency (sub_preferences sub) = ''weekly'' \<longrightarrow> nowDay c = 1)"
  by (auto simp: shouldSendScheduledNotification_def Let_def)

text \<open>
  \<^bold>\<open>C4.\<close> The source departs from the window \<open>[quietStart, quietEnd)\<close> of the claim.
  With the default quiet hours 22:00 to 06:00 and the frequency \<^verbatim>\<open>immediate\<close>, on a
  Tuesday at hour 6, after the end of the window, the source suppresses the notification:
  its test is \<^verbatim>\<open>currentHour <= quietEnd\<close>. With quiet hours 13:00 to 15:00 it
  suppresses at hour 20, as at every hour: its two comparisons are joined by \<^verbatim>\<open>||\<close>
  whether or not the window wraps. The claim permits both.
\<close>

theorem quiet_hours_divergence:
  "shouldSendScheduledNotification parseIntDec (sampleClock\<lparr> nowHours := 6, nowDay := 2 \<rparr>)
      (subscriptionData sampleClock (defaultInput ''u1'' None)) ''weather_updates'' = False \<and>
   spec_suppressed 6 22 6 ''immediate'' 2 = False \<and>
   shouldSendScheduledNotification parseIntDec (sampleClock\<lparr> nowHours := 20, nowDay := 2 \<rparr>)
      (subscriptionData sampleClock afternoonInput) ''weather_updates'' = False \<and>
   spec_suppressed 20 13 15 ''immediate'' 2 = False"
  by (simp add: shouldSendScheduledNotification_def subscriptionData_def defaultInput_def
      afternoonInput_def obj_or_def str_or_def parse_examples ge_num_def le_num_def
      spec_suppressed_def spec_inQuietWindow_def)

section \<open>Properties of subscriptions and deliveries\<close>

lemma subscribe_subscription:
  "kv_subscription (subscribe c s kv) = (kv_subscription kv)(in_userId s \<mapsto> subscriptionData c s)"
  by (simp add: subscribe_def Let_def)

lemma updateSystemStats_subscription:
  "kv_subscription (updateSystemStats c n kv) = kv_subscription kv"
  by (simp add: updateSystemStats_def Let_def)

lemma store_subscription:
  "kv_subscription (fst (storeAndDeliverNotification c u n kv)) = kv_subscription kv"
  by (simp add: storeAndDeliverNotification_def Let_def updateSystemStats_subscription
      split: sum.splits)

lemma store_delivered:
  assumes "storeAndDeliverNotification c u n kv = (kv1, Inr r)" and "n_channels n = Some chs"
  shows "delivered r = deliverLoop c chs noResults \<and> notificationId r = n_id n \<and>
         kv_subscription kv1 = kv_subscription kv"
proof -
  from assms(1) have "kv1 = fst (storeAndDeliverNotification c u n kv)" by simp
  then have "kv_subscription kv1 = kv_subscription kv" by (simp add: store_subscription)
  moreover from assms have "delivered r = deliverLoop c chs noResults \<and> notificationId r = n_id n"
    by (auto simp: storeAndDeliverNotification_def Let_def deliverToChannels_def noResults_def
        split: sum.splits)
  ultimately show ?thesis by simp
qed

lemma store_head:
  "\<exists>rest. kv_user (fst (storeAndDeliverNotification c u n kv)) u = Some (n # rest)"
  by (simp add: storeAndDeliverNotification_def Let_def updateSystemStats_def split: sum.splits)

lemma deliveredOn_append:
  "deliveredOn c chs u (xs @ ys) \<longleftrightarrow> deliveredOn c chs u xs \<and> deliveredOn c chs u ys"
  by (simp add: deliveredOn_def)

lemma priceAlertLoop_inv:
  assumes "priceAlertLoop sh c crop pd users kv acc = (kv', Inr res)"
      and "kv_subscription kv u = Some sub" and "deliveredOn c (sub_channels sub) u acc"
  shows "kv_subscription kv' = kv_subscription kv \<and> deliveredOn c (sub_channels sub) u res"
  using assms
proof (induction users arbitrary: kv acc)
  case Nil
  then show ?case by simp
next
  case (Cons userId users)
  show ?case
  proof (cases "\<bar>pd_changePercent pd\<bar> \<ge> 5")
    case False
    with Cons.prems(1) have "priceAlertLoop sh c crop pd users kv acc = (kv', Inr res)"
      by simp
    from Cons.IH [OF this Cons.prems(2,3)] show ?thesis .
  next
    case True
    with Cons.prems(1) obtain s where s: "kv_subscription kv userId = Some s"
      by (cases "kv_subscription kv userId") auto
    let ?n = "priceNotification sh c crop pd userId s"
    from True s Cons.prems(1) obtain kv1 r where
      st: "storeAndDeliverNotification c userId ?n kv = (kv1, Inr r)"
      and rest: "priceAlertLoop sh c crop pd users kv1 (acc @ [(userId, r)]) = (kv', Inr res)"
      by (cases "storeAndDeliverNotification c userId ?n kv")
         (auto split: sum.splits)
    have ch: "n_channels ?n = Some (sub_channels s)" by (simp add: priceNotification_def)
    from store_delivered [OF st ch]
    have d: "delivered r = deliverLoop c (sub_channels s) noResults"
      and k: "kv_subscription kv1 = kv_subscription kv" by simp_all
    have "deliveredOn c (sub_channels sub) u (acc @ [(userId, r)])"
      using Cons.prems(2,3) s d by (auto simp: deliveredOn_def)
    moreover have "kv_subscription kv1 u = Some sub" using k Cons.prems(2) by simp
    ultimately have "kv_subscription kv' = kv_subscription kv1 \<and> deliveredOn c (sub_channels sub) u res"
      using Cons.IH [OF rest] by blast
    with k show ?thesis by simp
  qed
qed

lemma scheduledLoop_inv:
  assumes "scheduledLoop parseInt c type content users kv acc = (kv', Inr res)"
      and "kv_subscription kv u = Some sub" and "deliveredOn c (sub_channels sub) u acc"
  shows "kv_subscription kv' = kv_subscription kv \<and> deliveredOn c (sub_channels sub) u res"
  using assms
proof (induction users arbitrary: kv acc)
  case Nil
  then show ?case by simp
next
  case (Cons userId users)
  show ?case
  proof (cases "kv_subscription kv userId")
    case None
    with Cons.prems(1) have "scheduledLoop parseInt c type content users kv acc = (kv', Inr res)"
      by simp
    from Cons.IH [OF this Cons.prems(2,3)] show ?thesis .
  next
    case (Some s)
    show ?thesis
    proof (cases "isActive s \<and> shouldSendScheduledNotification parseInt c s type")
      case False
      with Some Cons.prems(1) have "scheduledLoop parseInt c type content users kv acc = (kv', Inr res)"
        by auto
      from Cons.IH [OF this Cons.prems(2,3)] show ?thesis .
    next
      case True
      let ?n = "scheduledNotification c type content userId s"
      from True Some Cons.prems(1) obtain kv1 r where
        st: "storeAndDeliverNotification c userId ?n kv = (kv1, Inr r)"
        and rest: "scheduledLoop parseInt c type content users kv1 (acc @ [(userId, r)]) = (kv', Inr res)"
        by (cases "storeAndDeliverNotification c userId ?n kv")
           (auto split: sum.splits)
      have ch: "n_channels ?n = Some (sub_channels s)" by (simp add: scheduledNotification_def)
      from store_delivered [OF st ch]
      have d: "delivered r = deliverLoop c (sub_channels s) noResults"
        and k: "kv_subscription kv1 = kv_subscription kv" by simp_all
      have "deliveredOn c (sub_channels sub) u (acc @ [(userId, r)])"
        using Cons.prems(2,3) Some d by (auto simp: deliveredOn_def)
      moreover have "kv_subscription kv1 u = Some sub" using k Cons.prems(2) by simp
      ultimately have "kv_subscription kv' = kv_subscription kv1 \<and> deliveredOn c (sub_channels sub) u res"
        using Cons.IH [OF rest] by blast
      with k show ?thesis by simp
    qed
  qed
qed

lemma kvTwice_subscription:
  "kv_subscription kvTwice =
     [''u1'' \<mapsto> subscriptionData sampleClock (defaultInput ''u1'' (Some [''email'']))]"
  by (simp add: kvTwice_def subscribe_subscription farmStore_def emptyStore_def defaultInput_def)

lemma kvTwice_parts:
  "kv_farm_users kvTwice = [''farm1'' \<mapsto> [''u1'']]"
  "kv_crop_users kvTwice = [''tomatoes'' \<mapsto> [''u1'']]"
  "kv_user kvTwice = Map.empty"
  "kv_stats kvTwice = None"
  by (simp_all add: kvTwice_def subscribe_def Let_def farmStore_def emptyStore_def)

lemma sampleClock_fields:
  "nowMs sampleClock = ''1700000000000''"
  "nowIso sampleClock = ''2023-11-14T22:13:20.000Z''"
  by (simp_all add: sampleClock_def)

lemma email_subscription:
  "isActive (subscriptionData sampleClock (defaultInput ''u1'' (Some [''email''])))"
  "notificationTypes (subscriptionData sampleClock (defaultInput ''u1'' (Some [''email'']))) =
     [''price_alerts'', ''weather_warnings'', ''crop_recommendations'']"
  "sub_channels (subscriptionData sampleClock (defaultInput ''u1'' (Some [''email'']))) = [''email'']"
  by (simp_all add: subscriptionData_def defaultInput_def obj_or_def)

text \<open>
  \<^bold>\<open>C9\<close>, as stated, fails: after a user has subscribed with the channel \<^verbatim>\<open>sms\<close> and
  then with the channel \<^verbatim>\<open>email\<close>, a weather alert for the farm is delivered to that
  user by push and by sms. Weather alerts carry their own channel list.
\<close>

theorem resubscribe_weather_counterexample:
  "kv_subscription kvTwice ''u1'' =
     Some (subscriptionData sampleClock (defaultInput ''u1'' (Some [''email'']))) \<and>
   sub_channels (subscriptionData sampleClock (defaultInput ''u1'' (Some [''email'']))) = [''email''] \<and>
   snd (sendWeatherAlert sampleClock ''farm1'' sampleWeatherAlert kvTwice) =
     Inr \<lparr> s_subject = ''farm1'', s_usersNotified = 1,
           s_results = [(''u1'',
             \<lparr> stored = True,
               delivered = \<lparr> r_push = Some (sent sampleClock ''push''), r_email = None,
                             r_sms = Some (sent sampleClock ''sms'') \<rparr>,
               notificationId = ''weather_1700000000000_u1'' \<rparr>)] \<rparr>"
  by (simp add: kvTwice_subscription kvTwice_parts email_subscription sendWeatherAlert_def
      getUsersForFarm_def subscribedTo_def obj_or_def storeAndDeliverNotification_def
      deliverToChannels_def weatherNotification_def Let_def sampleClock_fields)

text \<open>
  \<^bold>\<open>C9\<close>, amended. A second \<^verbatim>\<open>subscribe\<close> for the same user replaces the stored
  subscription by the one built from the second call alone; its channel set is the one
  given in that call, or \<^verbatim>\<open>push\<close> when the call gives none. In every later store that
  still holds this subscription, the price alerts and the scheduled notifications
  delivered to the user go to exactly this channel set, and a crop-recommendation
  notification for the user is stored with it; none of the three operations changes a
  subscription.
\<close>

theorem resubscribe_channels:
  assumes same: "in_userId s1 = in_userId s2"
      and later: "kv_subscription kv' (in_userId s2) =
                    kv_subscription (subscribe c2 s2 (subscribe c1 s1 kv)) (in_userId s2)"
  shows
    "kv_subscription (subscribe c2 s2 (subscribe c1 s1 kv)) (in_userId s2) =
        Some (subscriptionData c2 s2) \<and>
     sub_channels (subscriptionData c2 s2) = obj_or (in_channels s2) [''push''] \<and>
     (snd (sendPriceAlert sh c crop pd kv') = Inr smp \<longrightarrow>
        kv_subscription (fst (sendPriceAlert sh c crop pd kv')) = kv_subscription kv' \<and>
        deliveredOn c (obj_or (in_channels s2) [''push'']) (in_userId s2) (s_results smp)) \<and>
     (snd (processScheduledNotificationType parseInt c type kv') = Inr sms \<longrightarrow>
        kv_subscription (fst (processScheduledNotificationType parseInt c type kv')) =
          kv_subscription kv' \<and>
        deliveredOn c (obj_or (in_channels s2) [''push'']) (in_userId s2) (s_results sms)) \<and>
     (snd (sendCropRecommendations sh c (in_userId s2) recs kv') = Inr (Sent nid) \<longrightarrow>
        kv_subscription (fst (sendCropRecommendations sh c (in_userId s2) recs kv')) =
          kv_subscription kv' \<and>
        (\<exists>n rest. kv_user (fst (sendCropRecommendations sh c (in_userId s2) recs kv')) (in_userId s2) =
             Some (n # rest) \<and> n_id n = nid \<and>
           n_channels n = Some (obj_or (in_channels s2) [''push''])))"
proof -
  let ?u = "in_userId s2"
  let ?sub = "subscriptionData c2 s2"
  let ?chs = "obj_or (in_channels s2) [''push'']"
  have stored: "kv_subscription (subscribe c2 s2 (subscribe c1 s1 kv)) ?u = Some ?sub"
    by (simp add: subscribe_subscription)
  have chs: "sub_channels ?sub = ?chs"
    by (simp add: subscriptionData_def)
  from later stored have sub: "kv_subscription kv' ?u = Some ?sub" by simp
  have empty: "deliveredOn c (sub_channels ?sub) ?u []" by (simp add: deliveredOn_def)
  have price: "kv_subscription (fst (sendPriceAlert sh c crop pd kv')) = kv_subscription kv' \<and>
        deliveredOn c ?chs ?u (s_results smp)"
    if a: "snd (sendPriceAlert sh c crop pd kv') = Inr smp"
  proof -
    obtain kv1 res where l: "priceAlertLoop sh c crop pd (getUsersForCrop kv' crop ''price_alerts'') kv' [] = (kv1, res)"
      by (cases "priceAlertLoop sh c crop pd (getUsersForCrop kv' crop ''price_alerts'') kv' []")
    with a obtain results where r: "res = Inr results" "s_results smp = results"
      "fst (sendPriceAlert sh c crop pd kv') = kv1"
      by (cases res) (auto simp: sendPriceAlert_def Let_def)
    from priceAlertLoop_inv [OF l [unfolded r(1)] sub empty] r chs show ?thesis by simp
  qed
  have sched: "kv_subscription (fst (processScheduledNotificationType parseInt c type kv')) =
          kv_subscription kv' \<and>
        deliveredOn c ?chs ?u (s_results sms)"
    if a: "snd (processScheduledNotificationType parseInt c type kv') = Inr sms"
  proof -
    obtain kv1 res where l: "scheduledLoop parseInt c type (generateScheduledContent type)
        (obj_or (kv_queue kv' type) []) kv' [] = (kv1, res)"
      by (cases "scheduledLoop parseInt c type (generateScheduledContent type)
        (obj_or (kv_queue kv' type) []) kv' []")
    with a obtain results where r: "res = Inr results" "s_results sms = results"
      "fst (processScheduledNotificationType parseInt c type kv') = kv1"
      by (cases res) (auto simp: processScheduledNotificationType_def Let_def)
    from scheduledLoop_inv [OF l [unfolded r(1)] sub empty] r chs show ?thesis by simp
  qed
  have rec: "kv_subscription (fst (sendCropRecommendations sh c ?u recs kv')) = kv_subscription kv' \<and>
        (\<exists>n rest. kv_user (fst (sendCropRecommendations sh c ?u recs kv')) ?u = Some (n # rest) \<and>
           n_id n = nid \<and> n_channels n = Some ?chs)"
    if a: "snd (sendCropRecommendations sh c ?u recs kv') = Inr (Sent nid)"
  proof -
    let ?n = "cropRecNotification sh c ?u recs ?sub"
    from a sub have act: "\<not> (\<not> isActive ?sub \<or> ''crop_recommendations'' \<notin> set (notificationTypes ?sub))"
      by (auto simp: sendCropRecommendations_def split: if_splits)
    obtain kv1 res where st: "storeAndDeliverNotification c ?u ?n kv' = (kv1, res)"
      by (cases "storeAndDeliverNotification c ?u ?n kv'")
    from a sub act st have f: "fst (sendCropRecommendations sh c ?u recs kv') = kv1" "nid = n_id ?n"
      by (auto simp: sendCropRecommendations_def split: sum.splits)
    from st have k: "kv1 = fst (storeAndDeliverNotification c ?u ?n kv')" by simp
    from store_head [of c ?u ?n kv'] obtain rest where "kv_user kv1 ?u = Some (?n # rest)"
      unfolding k by blast
    moreover have "n_channels ?n = Some ?chs"
      by (simp add: cropRecNotification_def chs)
    moreover have "kv_subscription kv1 = kv_subscription kv'"
      unfolding k by (rule store_subscription)
    ultimately show ?thesis using f by auto
  qed
  from stored chs price sched rec show ?thesis by blast
qed

theorem resubscribe_channels_witness:
  "in_userId (defaultInput ''u1'' (Some [''sms''])) = in_userId (defaultInput ''u1'' (Some [''email''])) \<and>
   snd (sendPriceAlert showNum sampleClock ''tomatoes'' samplePrice kvTwice) =
     Inr \<lparr> s_subject = ''tomatoes'', s_usersNotified = 1,
           s_results = [(''u1'',
             \<lparr> stored = True,
               delivered = \<lparr> r_push = None, r_email = Some (sent sampleClock ''email''),
                             r_sms = None \<rparr>,
               notificationId = ''price_1700000000000_u1'' \<rparr>)] \<rparr> \<and>
   deliveredOn sampleClock [''email''] ''u1''
     [(''u1'',
       \<lparr> stored = True,
         delivered = \<lparr> r_push = None, r_email = Some (sent sampleClock ''email''), r_sms = None \<rparr>,
         notificationId = ''price_1700000000000_u1'' \<rparr>)]"
proof -
  let ?s1 = "defaultInput ''u1'' (Some [''sms''])"
  let ?s2 = "defaultInput ''u1'' (Some [''email''])"
  let ?sm = "\<lparr> s_subject = ''tomatoes'', s_usersNotified = 1,
           s_results = [(''u1'',
             \<lparr> stored = True,
               delivered = \<lparr> r_push = None, r_email = Some (sent sampleClock ''email''),
                             r_sms = None \<rparr>,
               notificationId = ''price_1700000000000_u1'' \<rparr>)] \<rparr>"
  have same: "in_userId ?s1 = in_userId ?s2" by (simp add: defaultInput_def)
  have later: "kv_subscription kvTwice (in_userId ?s2) =
      kv_subscription (subscribe sampleClock ?s2 (subscribe sampleClock ?s1 farmStore)) (in_userId ?s2)"
    by (simp add: kvTwice_def)
  have run: "snd (sendPriceAlert showNum sampleClock ''tomatoes'' samplePrice kvTwice) = Inr ?sm"
    by (simp add: kvTwice_subscription kvTwice_parts email_subscription sendPriceAlert_def
      getUsersForCrop_def subscribedTo_def obj_or_def storeAndDeliverNotification_def
      deliverToChannels_def priceNotification_def Let_def sampleClock_fields samplePrice_def)
  have u: "in_userId ?s2 = ''u1''" "obj_or (in_channels ?s2) [''push''] = [''email'']"
    by (simp_all add: defaultInput_def obj_or_def)
  from resubscribe_channels [OF same later, of showNum sampleClock "''tomatoes''" samplePrice ?sm] run
  have "deliveredOn sampleClock (obj_or (in_channels ?s2) [''push'']) (in_userId ?s2) (s_results ?sm)"
    by blast
  then have "deliveredOn sampleClock [''email''] ''u1'' (s_results ?sm)"
    by (simp only: u)
  with same run show ?thesis by simp
qed

end
